theory Spec2Isabelle
  imports Main
begin

section \<open>Python text primitives used by anyCSV\_reader.py\<close>

text \<open>
  A Python \<open>str\<close> is modelled as a list of code points below 256 (one \<open>char\<close> per code
  point, i.e. Latin-1 text). The character classes below are the ones CPython uses for
  \<open>str\<close> patterns and methods on that range: \<open>\w\<close> in \<open>re\<close> is "alphanumeric in the
  Unicode sense, or underscore", \<open>str.lower\<close> maps the upper-case letters to their
  lower-case partners, \<open>str.split()\<close> and \<open>str.strip()\<close> use \<open>str.isspace\<close>.
\<close>

definition ascii_uppers :: string where
  "ascii_uppers = ''ABCDEFGHIJKLMNOPQRSTUVWXYZ''"

definition ascii_lowers :: string where
  "ascii_lowers = ''abcdefghijklmnopqrstuvwxyz''"

definition ascii_digits :: string where
  "ascii_digits = ''0123456789''"

text \<open>The character class \<open>[A-Za-z0-9_]\<close>.\<close>

definition ascii_word_chars :: string where
  "ascii_word_chars = ascii_uppers @ ascii_lowers @ ascii_digits @ ''_''"

text \<open>Upper-case letters U+00C0..U+00D6, U+00D8..U+00DE and their lower-case partners.\<close>

definition latin1_uppers :: string where
  "latin1_uppers =
     [CHR 0xC0, CHR 0xC1, CHR 0xC2, CHR 0xC3, CHR 0xC4, CHR 0xC5, CHR 0xC6, CHR 0xC7,
      CHR 0xC8, CHR 0xC9, CHR 0xCA, CHR 0xCB, CHR 0xCC, CHR 0xCD, CHR 0xCE, CHR 0xCF,
      CHR 0xD0, CHR 0xD1, CHR 0xD2, CHR 0xD3, CHR 0xD4, CHR 0xD5, CHR 0xD6,
      CHR 0xD8, CHR 0xD9, CHR 0xDA, CHR 0xDB, CHR 0xDC, CHR 0xDD, CHR 0xDE]"

definition latin1_lowers :: string where
  "latin1_lowers =
     [CHR 0xE0, CHR 0xE1, CHR 0xE2, CHR 0xE3, CHR 0xE4, CHR 0xE5, CHR 0xE6, CHR 0xE7,
      CHR 0xE8, CHR 0xE9, CHR 0xEA, CHR 0xEB, CHR 0xEC, CHR 0xED, CHR 0xEE, CHR 0xEF,
      CHR 0xF0, CHR 0xF1, CHR 0xF2, CHR 0xF3, CHR 0xF4, CHR 0xF5, CHR 0xF6,
      CHR 0xF8, CHR 0xF9, CHR 0xFA, CHR 0xFB, CHR 0xFC, CHR 0xFD, CHR 0xFE]"

text \<open>
  The remaining alphanumeric code points of the range: feminine and masculine ordinal
  indicators, superscript digits, micro sign, vulgar fractions, sharp s, y with
  diaeresis.
\<close>

definition latin1_other_alnum :: string where
  "latin1_other_alnum =
     [CHR 0xAA, CHR 0xB2, CHR 0xB3, CHR 0xB5, CHR 0xB9, CHR 0xBA,
      CHR 0xBC, CHR 0xBD, CHR 0xBE, CHR 0xDF, CHR 0xFF]"

definition latin1_word_chars :: string where
  "latin1_word_chars = latin1_uppers @ latin1_lowers @ latin1_other_alnum"

text \<open>\<open>\w\<close> of a \<open>str\<close> pattern.\<close>

definition word_char :: "char \<Rightarrow> bool" where
  "word_char c \<longleftrightarrow> c \<in> set ascii_word_chars \<or> c \<in> set latin1_word_chars"

text \<open>\<open>str.lower\<close> on one character.\<close>

definition py_lower :: "char \<Rightarrow> char" where
  "py_lower c =
     (case map_of (zip (ascii_uppers @ latin1_uppers) (ascii_lowers @ latin1_lowers)) c of
        Some l \<Rightarrow> l
      | None \<Rightarrow> c)"

text \<open>\<open>str.isspace\<close> on one character.\<close>

definition py_isspace :: "char \<Rightarrow> bool" where
  "py_isspace c \<longleftrightarrow>
     c \<in> set [CHR 0x09, CHR 0x0A, CHR 0x0B, CHR 0x0C, CHR 0x0D,
              CHR 0x1C, CHR 0x1D, CHR 0x1E, CHR 0x1F, CHR 0x20, CHR 0x85, CHR 0xA0]"

text \<open>\<open>bool(s.strip())\<close>: the string has a character that is not white space.\<close>

definition strip_nonempty :: "string \<Rightarrow> bool" where
  "strip_nonempty s \<longleftrightarrow> (\<exists>c \<in> set s. \<not> py_isspace c)"

text \<open>\<open>s.split()\<close>: the maximal runs of characters that are not white space.\<close>

fun split_acc :: "string \<Rightarrow> string \<Rightarrow> string list" where
  "split_acc cur [] = (if cur = [] then [] else [cur])"
| "split_acc cur (c # cs) =
     (if py_isspace c then (if cur = [] then split_acc [] cs else cur # split_acc [] cs)
      else split_acc (cur @ [c]) cs)"

definition py_split :: "string \<Rightarrow> string list" where
  "py_split s = split_acc [] s"

text \<open>\<open>str(n)\<close> for a non-negative integer.\<close>

definition digit_char :: "nat \<Rightarrow> char" where
  "digit_char d = ascii_digits ! d"

function str_nat :: "nat \<Rightarrow> string" where
  "str_nat n = (if n < 10 then [digit_char n] else str_nat (n div 10) @ [digit_char (n mod 10)])"
  by pat_completeness auto
termination
  by (relation "measure id") auto

declare str_nat.simps [simp del]

text \<open>\<open>sep.join(xs)\<close>.\<close>

fun join :: "string \<Rightarrow> string list \<Rightarrow> string" where
  "join sep [] = []"
| "join sep [x] = x"
| "join sep (x # y # ys) = x @ sep @ join sep (y # ys)"

section \<open>TableNameDeriver: \<open>generate_table_name\<close>\<close>

definition TABLE_PREFIX :: string where
  "TABLE_PREFIX = ''csv_table_''"

text \<open>\<open>os.path.basename\<close> (POSIX): what follows the last slash.\<close>

definition basename :: "string \<Rightarrow> string" where
  "basename p = rev (takeWhile (\<lambda>c. c \<noteq> CHR ''/'') (rev p))"

text \<open>
  \<open>os.path.splitext(b)[0]\<close> for a name without slash: cut at the last dot, unless only
  dots (or nothing) come before it.
\<close>

definition splitext_root :: "string \<Rightarrow> string" where
  "splitext_root b =
     (let rest = dropWhile (\<lambda>c. c \<noteq> CHR ''.'') (rev b)
      in case rest of
           [] \<Rightarrow> b
         | _ # rstem \<Rightarrow> if (\<exists>c \<in> set rstem. c \<noteq> CHR ''.'') then rev rstem else b)"

text \<open>\<open>re.sub(r'[^\w]', '_', name)\<close>.\<close>

definition sub_nonword :: "string \<Rightarrow> string" where
  "sub_nonword name = map (\<lambda>c. if word_char c then c else CHR ''_'') name"

definition generate_table_name :: "string \<Rightarrow> string" where
  "generate_table_name file_path =
     (let name = splitext_root (basename file_path);
          name = sub_nonword name
      in TABLE_PREFIX @ map py_lower name)"

section \<open>CommonColumnCount: \<open>infer_columns_structure\<close>\<close>

text \<open>
  The module-level list \<open>common_column_count\<close> is passed explicitly.
  \<open>common_column_count.append(n)\<close> is \<open>ccc @ [n]\<close>.
\<close>

definition infer_columns_structure :: "nat list \<Rightarrow> nat" where
  "infer_columns_structure common_column_count =
     (case common_column_count of [] \<Rightarrow> 5 | n # _ \<Rightarrow> n)"

section \<open>External collaborators\<close>

text \<open>
  \<open>entry\<close>: a value of a frame read with \<open>dtype=str\<close>: a string, or a missing value,
  which the parser gives as \<open>NaN\<close> (an empty field) or as \<open>None\<close> (a field that a short
  row does not have).
  \<open>cell\<close>: a value of a \<open>TEXT\<close> column of the store: a string, or \<open>NULL\<close>.
  \<open>label\<close>: a column label of a frame: the header text, or the position when the
  file is read with \<open>header=None\<close>.
\<close>

datatype missing = NaN | PyNone

datatype entry = Text string | Missing missing

type_synonym cell = "string option"

datatype label = Name string | Pos nat

record frame =
  labels :: "label list"
  body :: "entry list list"

datatype error = IOError | ParseError | ValueError | TypeError | OperationalError

text \<open>What the operator \<open>LIKE\<close> of the engine gives for a pattern and a value.\<close>

datatype like_result = Matches | NoMatch | Raises

text \<open>What a column text stands for inside the \<open>WHERE\<close> clause of a prepared statement.\<close>

datatype operand = Column string | Literal string

text \<open>
  The file system, \<open>hashlib\<close>, \<open>csv.Sniffer\<close>, \<open>pandas.read_csv\<close> and the parser of the
  storage engine are not part of the program; the program is a function of them.
  \<^item> \<open>read_bytes p\<close>: \<open>open(p, 'rb').read()\<close>, \<open>None\<close> when it raises;
  \<^item> \<open>sha256_hex\<close>: \<open>hashlib.sha256(b).hexdigest()\<close>;
  \<^item> \<open>read_sample p\<close>: \<open>open(p, 'r', ...).read(2048)\<close>, \<open>None\<close> when it raises;
  \<^item> \<open>sniff_delimiter s\<close>: \<open>Sniffer().sniff(s).delimiter\<close>, \<open>None\<close> for \<open>csv.Error\<close>;
  \<^item> \<open>sniff_has_header s\<close>: \<open>Sniffer().has_header(s)\<close>, \<open>None\<close> for \<open>csv.Error\<close>;
  \<^item> \<open>read_csv p d h\<close>: \<open>pd.read_csv(p, dtype=str, delimiter=d, header=0 if h else None,
    on_bad_lines='skip', engine='python')\<close>, \<open>None\<close> when it raises;
  \<^item> \<open>astype_str m\<close>: the string \<open>df.astype(str)\<close> puts in the place of a missing
    value, \<open>None\<close> when the value stays missing (\<open>"".join(row)\<close> then raises
    \<open>TypeError\<close>); this depends on the version of pandas;
  \<^item> \<open>sql_parses text\<close>: the engine can parse the text of a statement (its syntax and
    its limits on length, depth and number of parameters);
  \<^item> \<open>accepts_columns cs\<close>: the engine creates a table with these column names;
  \<^item> \<open>sql_operand all_cols text\<close>: how the engine reads \<open>text\<close> in front of \<open>LIKE ?\<close>
    in a query on a table with columns \<open>all_cols\<close>, \<open>None\<close> when preparing the statement
    raises;
  \<^item> \<open>sql_like p v\<close>: the value of \<open>v LIKE p\<close> in the engine; \<open>NoMatch\<close> stands for
    false and for \<open>NULL\<close>.
\<close>

record env =
  read_bytes :: "string \<Rightarrow> string option"
  sha256_hex :: "string \<Rightarrow> string"
  read_sample :: "string \<Rightarrow> string option"
  sniff_delimiter :: "string \<Rightarrow> char option"
  sniff_has_header :: "string \<Rightarrow> bool option"
  read_csv :: "string \<Rightarrow> char \<Rightarrow> bool \<Rightarrow> frame option"
  astype_str :: "missing \<Rightarrow> string option"
  sql_parses :: "string \<Rightarrow> bool"
  accepts_columns :: "string list \<Rightarrow> bool"
  sql_operand :: "string list \<Rightarrow> string \<Rightarrow> operand option"
  sql_like :: "string \<Rightarrow> cell \<Rightarrow> like_result"

section \<open>The store\<close>

text \<open>
  A data table has its column names, fixed at creation, and its rows, each aligned to the
  columns. The process state is the list \<open>common_column_count\<close>, the data tables in
  creation order, and the ledger \<open>imported_files\<close> (filename, filehash) with the
  filename as primary key.
\<close>

record table =
  tcols :: "string list"
  trows :: "cell list list"

record state =
  common_column_count :: "nat list"
  tables :: "(string \<times> table) list"
  imported_files :: "(string \<times> string) list"

text \<open>The engine compares column names without regard to the case of ASCII letters.\<close>

definition ascii_fold :: "char \<Rightarrow> char" where
  "ascii_fold c = (case map_of (zip ascii_uppers ascii_lowers) c of Some l \<Rightarrow> l | None \<Rightarrow> c)"

definition sql_name_eq :: "string \<Rightarrow> string \<Rightarrow> bool" where
  "sql_name_eq a b \<longleftrightarrow> map ascii_fold a = map ascii_fold b"

text \<open>The value a row has in the column the engine resolves \<open>c\<close> to (\<open>NULL\<close> if none).\<close>

definition column_value :: "string list \<Rightarrow> cell list \<Rightarrow> string \<Rightarrow> cell" where
  "column_value cols row c =
     (case map_of (zip (map (map ascii_fold) cols) row) (map ascii_fold c) of
        Some v \<Rightarrow> v
      | None \<Rightarrow> None)"

text \<open>
  Lines 92 to 94 and 118 to 119: the text
  \<open>CREATE TABLE IF NOT EXISTS 'name' ("c1" TEXT, "c2" TEXT, ...)\<close>, with the column
  names interpolated between double quotes.
\<close>

definition create_table_sql :: "string \<Rightarrow> string list \<Rightarrow> string" where
  "create_table_sql table_name cols =
     ''CREATE TABLE IF NOT EXISTS '' @ [CHR 0x27] @ table_name @ [CHR 0x27] @ '' ('' @
     join '', '' (map (\<lambda>col. [CHR 0x22] @ col @ [CHR 0x22] @ '' TEXT'') cols) @ '')''"

text \<open>
  The statement is parsed whether the table exists or not, and raises when the engine
  cannot parse it; a table that exists is left as it is.
\<close>

definition create_table_if_not_exists ::
  "env \<Rightarrow> string \<Rightarrow> string list \<Rightarrow> state \<Rightarrow> error + state" where
  "create_table_if_not_exists e name cols st =
     (if \<not> sql_parses e (create_table_sql name cols) then Inl OperationalError
      else case map_of (tables st) name of
             Some t \<Rightarrow> Inr st
           | None \<Rightarrow>
               if accepts_columns e cols
               then Inr (st\<lparr>tables := tables st @ [(name, \<lparr>tcols = cols, trows = []\<rparr>)]\<rparr>)
               else Inl OperationalError)"

text \<open>\<open>SELECT _hash FROM 'name'\<close> followed by \<open>row[0] for row in cur.fetchall()\<close>.\<close>

definition select_hash :: "string \<Rightarrow> state \<Rightarrow> error + cell list" where
  "select_hash name st =
     (case map_of (tables st) name of
        None \<Rightarrow> Inl OperationalError
      | Some t \<Rightarrow>
          if (\<exists>c \<in> set (tcols t). sql_name_eq c ''_hash'')
          then Inr (map (\<lambda>row. column_value (tcols t) row ''_hash'') (trows t))
          else Inl OperationalError)"

text \<open>
  \<open>new_rows.to_sql(name, conn, if_exists='append', index=False)\<close>: one
  \<open>INSERT INTO name (cols) VALUES (...)\<close> per row inside one transaction. It raises, and
  stores nothing, when the table lacks one of the frame's columns; columns of the table
  that the frame does not have are left \<open>NULL\<close>.
\<close>

definition to_sql_append ::
  "string \<Rightarrow> string list \<Rightarrow> cell list list \<Rightarrow> state \<Rightarrow> error + state" where
  "to_sql_append name cols new_rows st =
     (case map_of (tables st) name of
        None \<Rightarrow> Inl OperationalError
      | Some t \<Rightarrow>
          if (\<forall>c \<in> set cols. \<exists>tc \<in> set (tcols t). sql_name_eq tc c)
          then Inr (st\<lparr>tables :=
                 map (\<lambda>(n, u). if n = name
                        then (n, u\<lparr>trows := trows u @
                               map (\<lambda>row. map (column_value cols row) (tcols u)) new_rows\<rparr>)
                        else (n, u))
                   (tables st)\<rparr>)
          else Inl OperationalError)"

text \<open>\<open>SELECT 1 FROM imported_files WHERE filename = ? AND filehash = ?\<close>, \<open>fetchone()\<close>.\<close>

definition already_imported :: "state \<Rightarrow> string \<Rightarrow> string \<Rightarrow> bool" where
  "already_imported st f filehash \<longleftrightarrow> map_of (imported_files st) f = Some filehash"

text \<open>\<open>INSERT OR REPLACE INTO imported_files (filename, filehash) VALUES (?, ?)\<close>.\<close>

fun upsert :: "string \<Rightarrow> string \<Rightarrow> (string \<times> string) list \<Rightarrow> (string \<times> string) list" where
  "upsert k v [] = [(k, v)]"
| "upsert k v ((k', v') # kvs) = (if k' = k then upsert k v kvs else (k', v') # upsert k v kvs)"

definition record_import :: "string \<Rightarrow> string \<Rightarrow> state \<Rightarrow> state" where
  "record_import f filehash st = st\<lparr>imported_files := upsert f filehash (imported_files st)\<rparr>"

section \<open>FileHasher and RowDeduplicator\<close>

definition get_file_hash :: "env \<Rightarrow> string \<Rightarrow> string option" where
  "get_file_hash e file_path = map_option (sha256_hex e) (read_bytes e file_path)"

text \<open>\<open>str(col)\<close> for a column label.\<close>

fun str_label :: "label \<Rightarrow> string" where
  "str_label (Name s) = s"
| "str_label (Pos n) = str_nat n"

text \<open>
  A value of \<open>df.astype(str)\<close>: a string stays as it is, a missing value becomes what
  \<open>astype_str\<close> says.
\<close>

fun astype_entry :: "env \<Rightarrow> entry \<Rightarrow> string option" where
  "astype_entry e (Text s) = Some s"
| "astype_entry e (Missing m) = astype_str e m"

text \<open>\<open>x1 = Some y1, ..., xn = Some yn\<close> gives \<open>Some [y1, ..., yn]\<close>, anything else \<open>None\<close>.\<close>

fun all_some :: "'a option list \<Rightarrow> 'a list option" where
  "all_some [] = Some []"
| "all_some (x # xs) =
     (case x of
        None \<Rightarrow> None
      | Some y \<Rightarrow> (case all_some xs of None \<Rightarrow> None | Some ys \<Rightarrow> Some (y # ys)))"

text \<open>
  \<open>hashlib.sha256("".join(row).encode()).hexdigest()\<close> on a row of \<open>df.astype(str)\<close>;
  \<open>None\<close> when the join raises \<open>TypeError\<close> because a value of the row is no string.
\<close>

definition row_hash :: "env \<Rightarrow> entry list \<Rightarrow> string option" where
  "row_hash e row =
     map_option (\<lambda>strings. sha256_hex e (concat strings)) (all_some (map (astype_entry e) row))"

text \<open>
  \<open>df[l] = values\<close>: a new last column, or new values for the column(s) labelled \<open>l\<close>.
\<close>

definition assign_column :: "label \<Rightarrow> entry list \<Rightarrow> frame \<Rightarrow> frame" where
  "assign_column l values df =
     (if l \<in> set (labels df)
      then df\<lparr>body := map (\<lambda>(row, v). map (\<lambda>(c, x). if c = l then v else x) (zip (labels df) row))
                          (zip (body df) values)\<rparr>
      else df\<lparr>labels := labels df @ [l],
              body := map (\<lambda>(row, v). row @ [v]) (zip (body df) values)\<rparr>)"

text \<open>
  Lines 90 and 116: \<open>df['_hash'] = df.astype(str).apply(..., axis=1)\<close>. The digests of
  all rows are computed first; when one of them raises, the assignment does not happen.
\<close>

definition with_hash :: "env \<Rightarrow> frame \<Rightarrow> error + frame" where
  "with_hash e df =
     (case all_some (map (row_hash e) (body df)) of
        None \<Rightarrow> Inl TypeError
      | Some digests \<Rightarrow> Inr (assign_column (Name ''_hash'') (map Text digests) df))"

text \<open>\<open>df['_hash']\<close> read in one row.\<close>

definition hash_cell :: "frame \<Rightarrow> entry list \<Rightarrow> entry" where
  "hash_cell df row =
     (case map_of (zip (labels df) row) (Name ''_hash'') of
        Some v \<Rightarrow> v
      | None \<Rightarrow> Missing NaN)"

text \<open>A value of a frame as \<open>to_sql\<close> stores it: a missing value becomes \<open>NULL\<close>.\<close>

fun to_cell :: "entry \<Rightarrow> cell" where
  "to_cell (Text s) = Some s"
| "to_cell (Missing m) = None"

text \<open>
  Lines 98 and 122: \<open>df[~df['_hash'].isin(existing_hashes)]\<close>. After line 90 every value
  of the column is a string.
\<close>

definition new_rows :: "frame \<Rightarrow> cell set \<Rightarrow> entry list list" where
  "new_rows df existing_hashes =
     filter (\<lambda>row. to_cell (hash_cell df row) \<notin> existing_hashes) (body df)"

section \<open>SchemaNormalizer\<close>

text \<open>\<open>f"column_{i+1}"\<close>.\<close>

definition column_name :: "nat \<Rightarrow> string" where
  "column_name i = ''column_'' @ str_nat (i + 1)"

text \<open>Lines 84 and 115: \<open>[f"column_{i+1}" for i in range(df.shape[1])]\<close>.\<close>

definition synthetic_columns :: "frame \<Rightarrow> frame" where
  "synthetic_columns df = df\<lparr>labels := map (\<lambda>i. Name (column_name i)) [0 ..< length (labels df)]\<rparr>"

text \<open>
  Line 86: \<open>[str(col) if str(col).strip() else f"column_{i+1}" for i, col in
  enumerate(df.columns)]\<close>.
\<close>

definition header_columns :: "frame \<Rightarrow> frame" where
  "header_columns df =
     df\<lparr>labels := map (\<lambda>(i, col). Name (if strip_nonempty (str_label col) then str_label col
                                       else column_name i))
                     (enumerate 0 (labels df))\<rparr>"

text \<open>Lines 83 to 86.\<close>

definition normalize_columns :: "bool \<Rightarrow> frame \<Rightarrow> frame" where
  "normalize_columns has_header df =
     (if \<not> has_header then synthetic_columns df else header_columns df)"

section \<open>ImportOrchestrator: \<open>import_csvs_to_db\<close>\<close>

datatype message =
    Skipping string
  | Imported nat string
  | NoNewData string
  | TryingFallback string
  | FallbackImported nat string
  | FallbackNoNewData string
  | FailedImport string

text \<open>Lines 62 to 73: the sample, the delimiter (comma on \<open>csv.Error\<close>), the header flag
  (\<open>False\<close> on \<open>csv.Error\<close>).\<close>

definition sniff :: "env \<Rightarrow> string \<Rightarrow> error + (char \<times> bool)" where
  "sniff e f =
     (case read_sample e f of
        None \<Rightarrow> Inl IOError
      | Some sample \<Rightarrow>
          Inr (case sniff_delimiter e sample of None \<Rightarrow> CHR '','' | Some d \<Rightarrow> d,
               case sniff_has_header e sample of None \<Rightarrow> False | Some h \<Rightarrow> h))"

text \<open>
  Lines 75 to 81: read with the header flag, on any exception read again without header
  (the flag itself stays as sniffed); an empty frame is a \<open>ValueError\<close>.
\<close>

definition primary_read :: "env \<Rightarrow> string \<Rightarrow> char \<Rightarrow> bool \<Rightarrow> error + frame" where
  "primary_read e f delimiter has_header =
     (case (case read_csv e f delimiter has_header of
              Some df \<Rightarrow> Some df
            | None \<Rightarrow> read_csv e f delimiter False) of
        None \<Rightarrow> Inl ParseError
      | Some df \<Rightarrow>
          if (body df = [] \<or> labels df = []) \<or> length (labels df) < 1 then Inl ValueError
          else Inr df)"

text \<open>
  Lines 90 to 107, and again lines 116 to 131 (\<open>fallback\<close> tells which message is
  printed): hash the rows, create the table if it is absent, read the stored hashes, keep
  the new rows, append them, write the ledger. The state returned with an error is the
  state at the statement that raised.
\<close>

definition persist ::
  "env \<Rightarrow> bool \<Rightarrow> string \<Rightarrow> string \<Rightarrow> frame \<Rightarrow> state \<Rightarrow> state \<times> (error + message)" where
  "persist e fallback f filehash df0 st =
     (case with_hash e df0 of
        Inl err \<Rightarrow> (st, Inl err)
      | Inr df \<Rightarrow>
         (let table_name = generate_table_name f;
              cols = map str_label (labels df)
          in case create_table_if_not_exists e table_name cols st of
               Inl err \<Rightarrow> (st, Inl err)
             | Inr st1 \<Rightarrow>
                (case select_hash table_name st1 of
                   Inl err \<Rightarrow> (st1, Inl err)
                 | Inr hashes \<Rightarrow>
                    (let existing_hashes = set hashes;
                         new = new_rows df existing_hashes
                     in if new \<noteq> []
                        then (case to_sql_append table_name cols (map (map to_cell) new) st1 of
                                Inl err \<Rightarrow> (st1, Inl err)
                              | Inr st2 \<Rightarrow>
                                  (record_import f filehash st2,
                                   Inr (if fallback then FallbackImported (length new) table_name
                                        else Imported (length new) table_name)))
                        else (record_import f filehash st1,
                              Inr (if fallback then FallbackNoNewData f else NoNewData f))))))"

text \<open>
  Lines 61 to 107, the body of the outer \<open>try\<close>: the frame of lines 62 to 86 first,
  then line 88 and the persistence.
\<close>

definition primary_frame :: "env \<Rightarrow> string \<Rightarrow> error + frame" where
  "primary_frame e f =
     (case sniff e f of
        Inl err \<Rightarrow> Inl err
      | Inr (delimiter, has_header) \<Rightarrow>
         (case primary_read e f delimiter has_header of
            Inl err \<Rightarrow> Inl err
          | Inr df \<Rightarrow> Inr (normalize_columns has_header df)))"

definition primary_path :: "env \<Rightarrow> string \<Rightarrow> string \<Rightarrow> state \<Rightarrow> state \<times> (error + message)" where
  "primary_path e f filehash st =
     (case primary_frame e f of
        Inl err \<Rightarrow> (st, Inl err)
      | Inr df \<Rightarrow>
         (let st1 = st\<lparr>common_column_count := common_column_count st @ [length (labels df)]\<rparr>
          in persist e False f filehash df st1))"

text \<open>\<open>df.iloc[:, :n]\<close>.\<close>

definition iloc_columns :: "nat \<Rightarrow> frame \<Rightarrow> frame" where
  "iloc_columns n df = \<lparr>labels = take n (labels df), body = map (take n) (body df)\<rparr>"

text \<open>Lines 112 to 115.\<close>

definition fallback_read :: "env \<Rightarrow> string \<Rightarrow> nat list \<Rightarrow> error + frame" where
  "fallback_read e f ccc =
     (let fallback_cols = infer_columns_structure ccc
      in case read_csv e f (CHR '','') False of
           None \<Rightarrow> Inl ParseError
         | Some df \<Rightarrow> Inr (synthetic_columns (iloc_columns fallback_cols df)))"

text \<open>Lines 111 to 131, the body of the inner \<open>try\<close>.\<close>

definition fallback_path :: "env \<Rightarrow> string \<Rightarrow> string \<Rightarrow> state \<Rightarrow> state \<times> (error + message)" where
  "fallback_path e f filehash st =
     (case fallback_read e f (common_column_count st) of
        Inl err \<Rightarrow> (st, Inl err)
      | Inr df \<Rightarrow> persist e True f filehash df st)"

text \<open>
  One iteration of the loop of lines 54 to 133. \<open>get_file_hash\<close> is called before the
  \<open>try\<close>: when it raises, the exception leaves the loop (\<open>Inl\<close>).
\<close>

definition process_file :: "env \<Rightarrow> string \<Rightarrow> state \<Rightarrow> error + (message list \<times> state)" where
  "process_file e f st =
     (case get_file_hash e f of
        None \<Rightarrow> Inl IOError
      | Some filehash \<Rightarrow>
          if already_imported st f filehash then Inr ([Skipping f], st)
          else (case primary_path e f filehash st of
                  (st1, Inr m) \<Rightarrow> Inr ([m], st1)
                | (st1, Inl err) \<Rightarrow>
                   (case fallback_path e f filehash st1 of
                      (st2, Inr m) \<Rightarrow> Inr ([TryingFallback f, m], st2)
                    | (st2, Inl inner_e) \<Rightarrow> Inr ([TryingFallback f, FailedImport f], st2))))"

text \<open>
  The loop over \<open>csv_files\<close> (the result of \<open>glob\<close>): the exception that ended it, if
  any, what was printed, and the state reached.
\<close>

fun import_files :: "env \<Rightarrow> string list \<Rightarrow> state \<Rightarrow> error option \<times> message list \<times> state" where
  "import_files e [] st = (None, [], st)"
| "import_files e (f # fs) st =
     (case process_file e f st of
        Inl err \<Rightarrow> (Some err, [], st)
      | Inr (ms, st1) \<Rightarrow>
          (case import_files e fs st1 of (r, ms', st2) \<Rightarrow> (r, ms @ ms', st2)))"

definition import_csvs_to_db ::
  "env \<Rightarrow> string list \<Rightarrow> state \<Rightarrow> error option \<times> message list \<times> state" where
  "import_csvs_to_db e csv_files st = import_files e csv_files st"

section \<open>SearchEngine: \<open>search_db\<close>\<close>

text \<open>Lines 156 to 158: the text of the query; column names are interpolated as they are.\<close>

definition search_sql :: "string \<Rightarrow> string list \<Rightarrow> string list \<Rightarrow> string" where
  "search_sql table columns terms =
     ''SELECT * FROM '' @ [CHR 0x27] @ table @ [CHR 0x27] @ '' WHERE '' @
     join '' AND ''
       (map (\<lambda>_. ''('' @ join '' OR '' (map (\<lambda>col. col @ '' LIKE ?'') columns) @ '')'') terms)"

text \<open>Lines 159 to 161: the arguments, one pattern \<open>%term%\<close> per column and term.\<close>

definition search_args :: "string list \<Rightarrow> string list \<Rightarrow> string list" where
  "search_args columns terms =
     concat (map (\<lambda>term. replicate (length columns) (''%'' @ term @ ''%'')) terms)"

text \<open>The value of an operand in a row.\<close>

fun operand_value :: "string list \<Rightarrow> cell list \<Rightarrow> operand \<Rightarrow> cell" where
  "operand_value all_columns row (Column c) = column_value all_columns row c"
| "operand_value all_columns row (Literal s) = Some s"

text \<open>
  One group \<open>(c1 LIKE ? OR c2 LIKE ? ...)\<close> in one row, from left to right: the first
  true alternative decides, an alternative that raises ends the statement.
\<close>

fun like_any :: "env \<Rightarrow> string list \<Rightarrow> cell list \<Rightarrow> string \<Rightarrow> operand list \<Rightarrow> error + bool" where
  "like_any e all_columns row arg [] = Inr False"
| "like_any e all_columns row arg (opd # opds) =
     (case sql_like e arg (operand_value all_columns row opd) of
        Raises \<Rightarrow> Inl OperationalError
      | Matches \<Rightarrow> Inr True
      | NoMatch \<Rightarrow> like_any e all_columns row arg opds)"

text \<open>The conjunction of the groups in one row, from left to right: the first group that
  is not true decides.\<close>

fun where_row :: "env \<Rightarrow> string list \<Rightarrow> cell list \<Rightarrow> operand list \<Rightarrow> string list \<Rightarrow> error + bool" where
  "where_row e all_columns row opds [] = Inr True"
| "where_row e all_columns row opds (term # terms) =
     (case like_any e all_columns row (''%'' @ term @ ''%'') opds of
        Inl err \<Rightarrow> Inl err
      | Inr found \<Rightarrow> if found then where_row e all_columns row opds terms else Inr False)"

text \<open>The rows of the table in their order; an error in one row ends the statement.\<close>

fun select_rows ::
  "env \<Rightarrow> string list \<Rightarrow> operand list \<Rightarrow> string list \<Rightarrow> cell list list \<Rightarrow> error + cell list list" where
  "select_rows e all_columns opds terms [] = Inr []"
| "select_rows e all_columns opds terms (row # rows) =
     (case where_row e all_columns row opds terms of
        Inl err \<Rightarrow> Inl err
      | Inr keep \<Rightarrow>
         (case select_rows e all_columns opds terms rows of
            Inl err \<Rightarrow> Inl err
          | Inr kept \<Rightarrow> Inr (if keep then row # kept else kept)))"

text \<open>
  Lines 163 and 164, \<open>cur.execute(sql, args)\<close> and \<open>fetchall()\<close>, for the query that
  \<open>search_sql\<close> and \<open>search_args\<close> build. With no term the text ends after \<open>WHERE\<close>
  and with no column it holds \<open>()\<close>: the engine rejects both. It raises as well when it
  cannot parse the text (the limits of the engine included) or cannot read one of the
  column texts. Otherwise the rows are those for which every group has a true
  alternative.
\<close>

definition execute_search ::
  "env \<Rightarrow> string \<Rightarrow> table \<Rightarrow> string list \<Rightarrow> string list \<Rightarrow> error + cell list list" where
  "execute_search e name t columns terms =
     (if terms = [] \<or> columns = [] then Inl OperationalError
      else if \<not> sql_parses e (search_sql name columns terms) then Inl OperationalError
      else case all_some (map (sql_operand e (tcols t)) columns) of
             None \<Rightarrow> Inl OperationalError
           | Some opds \<Rightarrow> select_rows e (tcols t) opds terms (trows t))"

datatype printed =
    MatchesIn string
  | Line string
  | ErrorSearching string
  | NoMatchesFound

text \<open>\<open>str(v)\<close> for a fetched value.\<close>

fun py_str :: "cell \<Rightarrow> string" where
  "py_str None = ''None''"
| "py_str (Some s) = s"

text \<open>Lines 171 and 172: \<open>dict(zip(all_columns, row))\<close>, then \<open>str(row_dict.get(col, ""))\<close>
  for the columns other than \<open>_hash\<close>.\<close>

definition display_row :: "string list \<Rightarrow> string list \<Rightarrow> cell list \<Rightarrow> string list" where
  "display_row all_columns columns row =
     map (\<lambda>col. case map_of (rev (zip all_columns row)) col of
                   Some v \<Rightarrow> py_str v
                 | None \<Rightarrow> [])
       columns"

text \<open>Lines 146 to 175, the body of the loop over the tables: what is printed for one
  table.\<close>

definition search_table :: "env \<Rightarrow> string \<Rightarrow> table \<Rightarrow> string \<Rightarrow> printed list" where
  "search_table e name t keyword =
     (let all_columns = tcols t
      in if all_columns = [] then []
         else
           (let columns = filter (\<lambda>col. col \<noteq> ''_hash'') all_columns;
                terms = py_split keyword
            in case execute_search e name t columns terms of
                 Inl err \<Rightarrow> [ErrorSearching name]
               | Inr rows \<Rightarrow>
                   if rows \<noteq> []
                   then MatchesIn name # Line (join '' | '' columns) #
                        map (\<lambda>row. Line (join '' | '' (display_row all_columns columns row))) rows
                   else []))"

text \<open>\<open>row[0].startswith(TABLE_PREFIX)\<close>.\<close>

definition startswith :: "string \<Rightarrow> string \<Rightarrow> bool" where
  "startswith s pre \<longleftrightarrow> take (length pre) s = pre"

fun is_matches :: "printed \<Rightarrow> bool" where
  "is_matches (MatchesIn name) = True"
| "is_matches other = False"

definition search_db :: "env \<Rightarrow> state \<Rightarrow> string \<Rightarrow> printed list" where
  "search_db e st keyword =
     (let data_tables = filter (\<lambda>(name, t). startswith name TABLE_PREFIX) (tables st);
          lines = concat (map (\<lambda>(name, t). search_table e name t keyword) data_tables);
          found_any = (\<exists>l \<in> set lines. is_matches l)
      in if \<not> found_any then lines @ [NoMatchesFound] else lines)"

section \<open>Properties of frames, messages and strings used in the statements\<close>



text \<open>The message of line 133.\<close>

fun is_failed :: "message \<Rightarrow> bool" where
  "is_failed (FailedImport f) = True"
| "is_failed other = False"

section \<open>The table name as the specification words it\<close>

text \<open>
  "Strips directory and extension, replaces every character outside \<open>[A-Za-z0-9_]\<close>
  with \<open>_\<close>, lowercases the result, prefixes with a fixed namespace prefix."
\<close>

definition spec_table_name :: "string \<Rightarrow> string" where
  "spec_table_name file_path =
     TABLE_PREFIX @
     map py_lower
       (map (\<lambda>c. if c \<in> set ascii_word_chars then c else CHR ''_'')
          (splitext_root (basename file_path)))"

definition is_ascii :: "char \<Rightarrow> bool" where
  "is_ascii c \<longleftrightarrow> (of_char c :: nat) < 128"

section \<open>Substrings\<close>

text \<open>
  "Contains that term as a case-sensitive substring", as the specification words the
  search condition.
\<close>

fun is_prefix :: "string \<Rightarrow> string \<Rightarrow> bool" where
  "is_prefix [] s = True"
| "is_prefix (p # ps) [] = False"
| "is_prefix (p # ps) (c # cs) = (p = c \<and> is_prefix ps cs)"

fun is_substring :: "string \<Rightarrow> string \<Rightarrow> bool" where
  "is_substring term [] = is_prefix term []"
| "is_substring term (c # cs) = (is_prefix term (c # cs) \<or> is_substring term cs)"

text \<open>The same without regard to the case of ASCII letters.\<close>

fun ci_prefix :: "string \<Rightarrow> string \<Rightarrow> bool" where
  "ci_prefix [] s = True"
| "ci_prefix (p # ps) [] = False"
| "ci_prefix (p # ps) (c # cs) = (ascii_fold p = ascii_fold c \<and> ci_prefix ps cs)"

fun ci_substring :: "string \<Rightarrow> string \<Rightarrow> bool" where
  "ci_substring term [] = ci_prefix term []"
| "ci_substring term (c # cs) = (ci_prefix term (c # cs) \<or> ci_substring term cs)"

text \<open>A term without the two wildcard characters of \<open>LIKE\<close>.\<close>

definition no_wildcards :: "string \<Rightarrow> bool" where
  "no_wildcards term \<longleftrightarrow> list_all (\<lambda>c. c \<noteq> CHR ''%'' \<and> c \<noteq> CHR ''_'') term"

section \<open>Example environments\<close>

text \<open>
  Concrete collaborators for the examples. A file is given by its text, by what the
  sniffer finds in it and by its records under each delimiter. The digest is the text
  itself (an injective stand-in for SHA-256).
\<close>

record file_spec =
  bytes :: "string option"
  sniffed_delimiter :: "char option"
  sniffed_header :: "bool option"
  records :: "char \<Rightarrow> string list list"

text \<open>The strings that \<open>read_csv\<close> reads as a missing value by default.\<close>

definition na_values :: "string list" where
  "na_values =
     [[], ''#N/A'', ''#N/A N/A'', ''#NA'', ''-1.#IND'', ''-1.#QNAN'', ''-NaN'', ''-nan'',
      ''1.#IND'', ''1.#QNAN'', ''<NA>'', ''N/A'', ''NA'', ''NULL'', ''NaN'', ''None'', ''n/a'',
      ''nan'', ''null'']"

text \<open>
  What \<open>read_csv\<close> returns for the records of the example files (rows no longer than
  the first record, header fields that differ from each other): no record at all raises
  (\<open>EmptyDataError\<close>); with \<open>header=0\<close> the first record gives the labels, an empty
  field being labelled \<open>Unnamed: <position>\<close>; with \<open>header=None\<close> the labels are the
  positions; a field that is one of \<open>na_values\<close> is \<open>NaN\<close>; a row with more fields
  than the first record is skipped and a shorter one is filled up with \<open>None\<close>.
\<close>

definition header_label :: "nat \<Rightarrow> string \<Rightarrow> label" where
  "header_label i field = Name (if field = [] then ''Unnamed: '' @ str_nat i else field)"

definition data_row :: "nat \<Rightarrow> string list \<Rightarrow> entry list" where
  "data_row width r =
     map (\<lambda>field. if field \<in> set na_values then Missing NaN else Text field) r @
     replicate (width - length r) (Missing PyNone)"

definition plain_frame :: "bool \<Rightarrow> string list list \<Rightarrow> frame option" where
  "plain_frame header recs =
     (case recs of
        [] \<Rightarrow> None
      | r # rs \<Rightarrow>
          Some \<lparr>labels = (if header then map (\<lambda>(i, field). header_label i field) (enumerate 0 r)
                          else map Pos [0 ..< length r]),
                body = map (data_row (length r))
                         (filter (\<lambda>x. length x \<le> length r) (if header then rs else recs))\<rparr>)"

text \<open>
  The operator \<open>LIKE\<close> of SQLite with its default settings (no case-sensitive
  \<open>LIKE\<close>, no other collation of letters, the limit on the length of a pattern at
  50000 bytes), on strings of code points below 256: a pattern of more than 50000 bytes
  in UTF-8 raises; a \<open>NULL\<close> value gives \<open>NULL\<close>; pattern and value end at their first
  character U+0000; \<open>%\<close> in the pattern stands for any run of characters, \<open>_\<close> for
  any one character, and any other character for itself or for the same ASCII letter in
  the other case.
\<close>

fun like_match :: "string \<Rightarrow> string \<Rightarrow> bool" where
  "like_match [] s = (s = [])"
| "like_match (p # ps) s =
     (if p = CHR ''%''
      then (like_match ps s \<or> (case s of [] \<Rightarrow> False | _ # t \<Rightarrow> like_match (p # ps) t))
      else (case s of
              [] \<Rightarrow> False
            | c # t \<Rightarrow> (p = CHR ''_'' \<or> ascii_fold p = ascii_fold c) \<and> like_match ps t))"

definition utf8_length :: "string \<Rightarrow> int" where
  "utf8_length s = int (length s) + int (length (filter (\<lambda>c. \<not> is_ascii c) s))"

definition until_nul :: "string \<Rightarrow> string" where
  "until_nul s = takeWhile (\<lambda>c. c \<noteq> CHR 0x00) s"

definition default_like :: "string \<Rightarrow> cell \<Rightarrow> like_result" where
  "default_like p v =
     (if 50000 < utf8_length p then Raises
      else case v of
             None \<Rightarrow> NoMatch
           | Some s \<Rightarrow> if like_match (until_nul p) (until_nul s) then Matches else NoMatch)"

text \<open>
  The part of the engine's expression syntax that the examples use: a short decimal
  numeral is a literal, a plain identifier that names a column of the table is that
  column. Any other text is rejected here; the engine itself accepts more (quoted names,
  arithmetic, longer numerals) and reads its reserved words in its own way (no example
  has a column named like one), so the theorems about every engine take \<open>sql_operand\<close>
  from the environment. The engine of the examples parses a text when its double quotes
  are paired. Missing values are converted to strings as by the version of pandas that
  turns \<open>NaN\<close> into \<open>nan\<close> and \<open>None\<close> into \<open>None\<close>.
\<close>

definition is_numeral :: "string \<Rightarrow> bool" where
  "is_numeral s \<longleftrightarrow>
     s \<noteq> [] \<and> length s \<le> 18 \<and> (\<forall>c \<in> set s. c \<in> set ascii_digits) \<and>
     (s = ''0'' \<or> take 1 s \<noteq> ''0'')"

definition is_identifier :: "string \<Rightarrow> bool" where
  "is_identifier s \<longleftrightarrow>
     (case s of
        [] \<Rightarrow> False
      | c # cs \<Rightarrow> c \<in> set (ascii_uppers @ ascii_lowers @ ''_'') \<and>
                 (\<forall>x \<in> set cs. x \<in> set (ascii_word_chars @ ''$'')))"

definition fragment_operand :: "string list \<Rightarrow> string \<Rightarrow> operand option" where
  "fragment_operand all_columns text =
     (if is_numeral text then Some (Literal text)
      else if is_identifier text \<and> (\<exists>c \<in> set all_columns. sql_name_eq c text)
      then Some (Column text)
      else None)"

definition env_of :: "(string \<times> file_spec) list \<Rightarrow> env" where
  "env_of files =
     \<lparr>read_bytes = (\<lambda>p. case map_of files p of None \<Rightarrow> None | Some s \<Rightarrow> bytes s),
      sha256_hex = (\<lambda>b. b),
      read_sample = (\<lambda>p. case map_of files p of None \<Rightarrow> None
                          | Some s \<Rightarrow> map_option (take 2048) (bytes s)),
      sniff_delimiter = (\<lambda>sample. case find (\<lambda>(p, s). map_option (take 2048) (bytes s) = Some sample) files of
                                    None \<Rightarrow> None | Some (p, s) \<Rightarrow> sniffed_delimiter s),
      sniff_has_header = (\<lambda>sample. case find (\<lambda>(p, s). map_option (take 2048) (bytes s) = Some sample) files of
                                    None \<Rightarrow> None | Some (p, s) \<Rightarrow> sniffed_header s),
      read_csv = (\<lambda>p d h. case map_of files p of
                             None \<Rightarrow> None
                           | Some s \<Rightarrow> if bytes s = None then None
                                       else plain_frame h (records s d)),
      astype_str = (\<lambda>m. case m of NaN \<Rightarrow> Some ''nan'' | PyNone \<Rightarrow> Some ''None''),
      sql_parses = (\<lambda>text. even (length (filter (\<lambda>c. c = CHR 0x22) text))),
      accepts_columns = (\<lambda>cs. distinct (map (map ascii_fold) cs)),
      sql_operand = fragment_operand,
      sql_like = default_like\<rparr>"

definition empty_state :: state where
  "empty_state = \<lparr>common_column_count = [], tables = [], imported_files = []\<rparr>"

section \<open>Example folders and stores\<close>

text \<open>A file name whose fourth character is U+00E9, the letter e with acute accent.\<close>

definition cafe_csv :: string where
  "cafe_csv = ''in/caf'' @ [CHR 0xE9] @ ''.csv''"

text \<open>
  A folder read in this order: a file with three columns, a file with four columns, and
  a file that holds one header line of six fields and no data.
\<close>

definition counts_folder :: "(string \<times> file_spec) list" where
  "counts_folder =
     [(''in/x.csv'',
       \<lparr>bytes = Some (''1,2,3'' @ [CHR 0x0A] @ ''4,5,6'' @ [CHR 0x0A]),
        sniffed_delimiter = Some (CHR '',''), sniffed_header = Some False,
        records = (\<lambda>d. if d = CHR '','' then [[''1'', ''2'', ''3''], [''4'', ''5'', ''6'']]
                        else [[''1,2,3''], [''4,5,6'']])\<rparr>),
      (''in/y.csv'',
       \<lparr>bytes = Some (''1,2,3,4'' @ [CHR 0x0A] @ ''5,6,7,8'' @ [CHR 0x0A]),
        sniffed_delimiter = Some (CHR '',''), sniffed_header = Some False,
        records = (\<lambda>d. if d = CHR '','' then [[''1'', ''2'', ''3'', ''4''], [''5'', ''6'', ''7'', ''8'']]
                        else [[''1,2,3,4''], [''5,6,7,8'']])\<rparr>),
      (''in/z.csv'',
       \<lparr>bytes = Some (''a,b,c,d,e,f'' @ [CHR 0x0A]),
        sniffed_delimiter = Some (CHR '',''), sniffed_header = Some True,
        records = (\<lambda>d. if d = CHR '','' then [[''a'', ''b'', ''c'', ''d'', ''e'', ''f'']]
                        else [[''a,b,c,d,e,f'']])\<rparr>)]"

definition counts_run :: "error option \<times> message list \<times> state" where
  "counts_run = import_csvs_to_db (env_of counts_folder) (map fst counts_folder) empty_state"

text \<open>The state in which the third file of \<open>counts_folder\<close> is processed.\<close>

definition counts_before_z :: state where
  "counts_before_z =
     snd (snd (import_csvs_to_db (env_of counts_folder) [''in/x.csv'', ''in/y.csv''] empty_state))"



text \<open>
  A file whose header line is \<open>Name,,Age\<close>, the second field being empty, followed by
  one row.
\<close>

definition names_folder :: "(string \<times> file_spec) list" where
  "names_folder =
     [(''in/n.csv'',
       \<lparr>bytes = Some (''Name,,Age'' @ [CHR 0x0A] @ ''ann,ops,7'' @ [CHR 0x0A]),
        sniffed_delimiter = Some (CHR '',''), sniffed_header = Some True,
        records = (\<lambda>d. if d = CHR '','' then [[''Name'', [], ''Age''], [''ann'', ''ops'', ''7'']]
                        else [[''Name,,Age''], [''ann,ops,7'']])\<rparr>)]"

text \<open>A file with one header line of three fields separated by semicolons, and no data.\<close>

definition semicolon_folder :: "(string \<times> file_spec) list" where
  "semicolon_folder =
     [(''in/s.csv'',
       \<lparr>bytes = Some (''a;b;c'' @ [CHR 0x0A]),
        sniffed_delimiter = Some (CHR '';''), sniffed_header = Some True,
        records = (\<lambda>d. if d = CHR '';'' then [[''a'', ''b'', ''c'']] else [[''a;b;c'']])\<rparr>)]"

text \<open>
  A folder whose first entry cannot be opened for reading (a directory named like a CSV
  file, or a file without read permission) and whose second entry is a readable file.
\<close>

definition locked_folder :: "(string \<times> file_spec) list" where
  "locked_folder =
     [(''in/archive.csv'',
       \<lparr>bytes = None, sniffed_delimiter = None, sniffed_header = None,
 records = (\<lambda>d. [])\<rparr>),
      (''in/b.csv'',
       \<lparr>bytes = Some (''1,x'' @ [CHR 0x0A] @ ''2,y'' @ [CHR 0x0A]),
        sniffed_delimiter = Some (CHR '',''), sniffed_header = Some False,
        records = (\<lambda>d. if d = CHR '','' then [[''1'', ''x''], [''2'', ''y'']]
                        else [[''1,x''], [''2,y'']])\<rparr>)]"

text \<open>
  A file that was imported without header earlier, and has since got a header line and
  one more row; the store still holds the table and the ledger entry of the first
  import.
\<close>

definition people_folder :: "(string \<times> file_spec) list" where
  "people_folder =
     [(''in/people.csv'',
       \<lparr>bytes = Some (''name,age'' @ [CHR 0x0A] @ ''alice,30'' @ [CHR 0x0A] @ ''carol,41'' @ [CHR 0x0A]),
        sniffed_delimiter = Some (CHR '',''), sniffed_header = Some True,
        records = (\<lambda>d. if d = CHR '',''
                        then [[''name'', ''age''], [''alice'', ''30''], [''carol'', ''41'']]
                        else [[''name,age''], [''alice,30''], [''carol,41'']])\<rparr>)]"

definition people_hash :: string where
  "people_hash = ''name,age'' @ [CHR 0x0A] @ ''alice,30'' @ [CHR 0x0A] @ ''carol,41'' @ [CHR 0x0A]"

definition people_state :: state where
  "people_state =
     \<lparr>common_column_count = [],
      tables = [(''csv_table_people'',
                 \<lparr>tcols = [''column_1'', ''column_2'', ''_hash''],
                  trows = [[Some ''alice'', Some ''30'', Some ''alice30'']]\<rparr>)],
      imported_files = [(''in/people.csv'', ''alice,30'' @ [CHR 0x0A])]\<rparr>"

text \<open>The store after the file of \<open>people_folder\<close> was processed in \<open>people_state\<close>.\<close>

definition people_after :: state where
  "people_after =
     \<lparr>common_column_count = [2],
      tables = [(''csv_table_people'',
                 \<lparr>tcols = [''column_1'', ''column_2'', ''_hash''],
                  trows = [[Some ''alice'', Some ''30'', Some ''alice30''],
                           [Some ''name'', Some ''age'', Some ''nameage''],
                           [Some ''carol'', Some ''41'', Some ''carol41'']]\<rparr>)],
      imported_files = [(''in/people.csv'', people_hash)]\<rparr>"

text \<open>
  Three files of one folder. Two hold a header line and no data; their names differ in
  one character that \<open>generate_table_name\<close> maps to the same underscore. The third has
  two columns and no header.
\<close>

definition templates_folder :: "(string \<times> file_spec) list" where
  "templates_folder =
     [(''in/a b.csv'',
       \<lparr>bytes = Some (''name,city'' @ [CHR 0x0A]),
        sniffed_delimiter = Some (CHR '',''), sniffed_header = Some True,
        records = (\<lambda>d. if d = CHR '','' then [[''name'', ''city'']] else [[''name,city'']])\<rparr>),
      (''in/a_b.csv'',
       \<lparr>bytes = Some (''id,name,city'' @ [CHR 0x0A]),
        sniffed_delimiter = Some (CHR '',''), sniffed_header = Some True,
        records = (\<lambda>d. if d = CHR '','' then [[''id'', ''name'', ''city'']]
                        else [[''id,name,city'']])\<rparr>),
      (''in/b.csv'',
       \<lparr>bytes = Some (''1,x'' @ [CHR 0x0A] @ ''2,y'' @ [CHR 0x0A]),
        sniffed_delimiter = Some (CHR '',''), sniffed_header = Some False,
        records = (\<lambda>d. if d = CHR '','' then [[''1'', ''x''], [''2'', ''y'']]
                        else [[''1,x''], [''2,y'']])\<rparr>)]"

definition templates_first_run :: "error option \<times> message list \<times> state" where
  "templates_first_run =
     import_csvs_to_db (env_of templates_folder) (map fst templates_folder) empty_state"

definition templates_second_run :: "error option \<times> message list \<times> state" where
  "templates_second_run =
     import_csvs_to_db (env_of templates_folder) (map fst templates_folder)
       (snd (snd templates_first_run))"

text \<open>The state in which the second file of \<open>templates_folder\<close> is processed first.\<close>

definition templates_before_a_b :: state where
  "templates_before_a_b =
     snd (snd (import_csvs_to_db (env_of templates_folder) [''in/a b.csv''] empty_state))"

text \<open>
  Three more files of one folder, read in this order: a header line of five fields and no
  data, a file with six columns, and a header line of six fields and no data whose name
  gives the same table name as the first.
\<close>

definition wide_folder :: "(string \<times> file_spec) list" where
  "wide_folder =
     [(''in/w e.csv'',
       \<lparr>bytes = Some (''a,b,c,d,e'' @ [CHR 0x0A]),
        sniffed_delimiter = Some (CHR '',''), sniffed_header = Some True,
        records = (\<lambda>d. if d = CHR '','' then [[''a'', ''b'', ''c'', ''d'', ''e'']]
                        else [[''a,b,c,d,e'']])\<rparr>),
      (''in/b.csv'',
       \<lparr>bytes = Some (''1,2,3,4,5,6'' @ [CHR 0x0A] @ ''6,5,4,3,2,1'' @ [CHR 0x0A]),
        sniffed_delimiter = Some (CHR '',''), sniffed_header = Some False,
        records = (\<lambda>d. if d = CHR '',''
                        then [[''1'', ''2'', ''3'', ''4'', ''5'', ''6''],
                              [''6'', ''5'', ''4'', ''3'', ''2'', ''1'']]
                        else [[''1,2,3,4,5,6''], [''6,5,4,3,2,1'']])\<rparr>),
      (''in/w_e.csv'',
       \<lparr>bytes = Some (''p,q,r,s,t,u'' @ [CHR 0x0A]),
        sniffed_delimiter = Some (CHR '',''), sniffed_header = Some True,
        records = (\<lambda>d. if d = CHR '','' then [[''p'', ''q'', ''r'', ''s'', ''t'', ''u'']]
                        else [[''p,q,r,s,t,u'']])\<rparr>)]"

definition wide_first_run :: "error option \<times> message list \<times> state" where
  "wide_first_run =
     import_csvs_to_db (env_of wide_folder) (map fst wide_folder) empty_state"

text \<open>The second import in a new process: the store is kept, the list of column counts
  is empty again.\<close>

definition wide_second_run :: "error option \<times> message list \<times> state" where
  "wide_second_run =
     import_csvs_to_db (env_of wide_folder) (map fst wide_folder)
       ((snd (snd wide_first_run))\<lparr>common_column_count := []\<rparr>)"

text \<open>A file with a header line \<open>name,age\<close> and one row, and the store after its import.\<close>

definition crm_folder :: "(string \<times> file_spec) list" where
  "crm_folder =
     [(''in/crm.csv'',
       \<lparr>bytes = Some (''name,age'' @ [CHR 0x0A] @ ''John Doe,30'' @ [CHR 0x0A]),
        sniffed_delimiter = Some (CHR '',''), sniffed_header = Some True,
        records = (\<lambda>d. if d = CHR '','' then [[''name'', ''age''], [''John Doe'', ''30'']]
                        else [[''name,age''], [''John Doe,30'']])\<rparr>)]"

definition crm_state :: state where
  "crm_state = snd (snd (import_csvs_to_db (env_of crm_folder) [''in/crm.csv''] empty_state))"

text \<open>A file whose header line holds the years \<open>2020,2021\<close>, and the store after its
  import.\<close>

definition years_folder :: "(string \<times> file_spec) list" where
  "years_folder =
     [(''in/years.csv'',
       \<lparr>bytes = Some (''2020,2021'' @ [CHR 0x0A] @ ''abc,xyz'' @ [CHR 0x0A]),
        sniffed_delimiter = Some (CHR '',''), sniffed_header = Some True,
        records = (\<lambda>d. if d = CHR '','' then [[''2020'', ''2021''], [''abc'', ''xyz'']]
                        else [[''2020,2021''], [''abc,xyz'']])\<rparr>)]"

definition years_state :: state where
  "years_state =
     snd (snd (import_csvs_to_db (env_of years_folder) [''in/years.csv''] empty_state))"

text \<open>A store with a table whose first column name holds a space, before a table that
  the search can read.\<close>

definition staff_state :: state where
  "staff_state =
     \<lparr>common_column_count = [],
      tables = [(''csv_table_staff'',
                 \<lparr>tcols = [''first name'', ''age'', ''_hash''],
                  trows = [[Some ''John'', Some ''30'', Some ''John30'']]\<rparr>),
                (''csv_table_crm'',
                 \<lparr>tcols = [''name'', ''age'', ''_hash''],
                  trows = [[Some ''John Doe'', Some ''30'', Some ''John Doe30'']]\<rparr>)],
      imported_files = []\<rparr>"

section \<open>Table names\<close>

lemma latin1_word_char_not_ascii: "c \<in> set latin1_word_chars \<Longrightarrow> \<not> is_ascii c"
  by (auto simp: latin1_word_chars_def latin1_uppers_def latin1_lowers_def
      latin1_other_alnum_def is_ascii_def)

lemma word_char_ascii: "is_ascii c \<Longrightarrow> word_char c \<longleftrightarrow> c \<in> set ascii_word_chars"
  using latin1_word_char_not_ascii by (auto simp: word_char_def)

lemma set_basename: "set (basename p) \<subseteq> set p"
  by (auto simp: basename_def dest: set_takeWhileD)

lemma set_splitext_root: "set (splitext_root b) \<subseteq> set b"
proof -
  have "set (tl (dropWhile (\<lambda>c. c \<noteq> CHR ''.'') (rev b))) \<subseteq> set b"
    by (metis list.set_sel(2) set_dropWhileD set_rev subsetI tl_Nil)
  then show ?thesis
    by (auto simp: splitext_root_def Let_def split: list.splits)
qed

lemma generate_table_name_unfold:
  "generate_table_name file_path =
     TABLE_PREFIX @
     map (\<lambda>c. if word_char c then py_lower c else CHR ''_'') (splitext_root (basename file_path))"
  by (simp add: generate_table_name_def sub_nonword_def py_lower_def ascii_uppers_def
      latin1_uppers_def ascii_lowers_def latin1_lowers_def)

text \<open>
  C8, as the code has it. The table name is the prefix \<open>csv_table_\<close> followed by the
  file name without directory and extension, in which every character that is not a word
  character of the regular expression engine (a letter or a digit in the Unicode sense, or
  the underscore) is replaced by an underscore and the others are lower-cased. For a path
  of ASCII characters this is the derivation of the specification: exactly the characters
  outside \<open>[A-Za-z0-9_]\<close> are replaced. The name is a function of the path alone.
\<close>

theorem generate_table_name_word_chars:
  "generate_table_name file_path =
     TABLE_PREFIX @
     map (\<lambda>c. if word_char c then py_lower c else CHR ''_'') (splitext_root (basename file_path))
   \<and> ((\<forall>c \<in> set file_path. is_ascii c) \<longrightarrow>
        generate_table_name file_path = spec_table_name file_path)"
proof (intro conjI impI)
  show "generate_table_name file_path =
     TABLE_PREFIX @
     map (\<lambda>c. if word_char c then py_lower c else CHR ''_'') (splitext_root (basename file_path))"
    by (rule generate_table_name_unfold)
next
  assume ascii: "\<forall>c \<in> set file_path. is_ascii c"
  have "\<forall>c \<in> set (splitext_root (basename file_path)). is_ascii c"
    using ascii set_basename set_splitext_root by blast
  then have "map (\<lambda>c. if word_char c then c else CHR ''_'') (splitext_root (basename file_path)) =
        map (\<lambda>c. if c \<in> set ascii_word_chars then c else CHR ''_'')
          (splitext_root (basename file_path))"
    by (simp add: word_char_ascii)
  then show "generate_table_name file_path = spec_table_name file_path"
    by (simp add: generate_table_name_def spec_table_name_def sub_nonword_def)
qed

theorem generate_table_name_word_chars_witness:
  "list_all is_ascii ''/data/My File-1.v2.csv'' \<and>
   generate_table_name ''/data/My File-1.v2.csv'' = spec_table_name ''/data/My File-1.v2.csv'' \<and>
   generate_table_name ''/data/My File-1.v2.csv'' = ''csv_table_my_file_1_v2''"
proof -
  have a: "list_all is_ascii ''/data/My File-1.v2.csv''"
    by (simp add: is_ascii_def)
  have v: "generate_table_name ''/data/My File-1.v2.csv'' = ''csv_table_my_file_1_v2''"
    by code_simp
  from a have b: "\<forall>c \<in> set ''/data/My File-1.v2.csv''. is_ascii c"
    by (simp only: list_all_iff)
  from generate_table_name_word_chars [of "''/data/My File-1.v2.csv''"] b
  have "generate_table_name ''/data/My File-1.v2.csv'' = spec_table_name ''/data/My File-1.v2.csv''"
    by blast
  with a v show ?thesis by blast
qed

text \<open>
  C8 as stated fails for a file name with a letter outside ASCII: \<open>\w\<close> matches it, so
  it is kept where the specification puts an underscore.
\<close>

theorem generate_table_name_keeps_letter_counterexample:
  "generate_table_name cafe_csv = ''csv_table_caf'' @ [CHR 0xE9] \<and>
   spec_table_name cafe_csv = ''csv_table_caf_''"
  by code_simp

section \<open>Lists of optional values\<close>

lemma all_some_map_Some: "all_some (map Some ys) = Some ys"
  by (induction ys) auto

lemma all_some_eq_Some: "all_some xs = Some ys \<longleftrightarrow> xs = map Some ys"
proof
  show "all_some xs = Some ys \<Longrightarrow> xs = map Some ys"
    by (induction xs arbitrary: ys) (auto split: option.splits)
  show "xs = map Some ys \<Longrightarrow> all_some xs = Some ys"
    by (simp add: all_some_map_Some)
qed

lemma all_some_eq_None: "all_some xs = None \<longleftrightarrow> None \<in> set xs"
  by (induction xs) (auto split: option.splits)

section \<open>What the statements of the store leave unchanged\<close>

lemma create_table_frame:
  "create_table_if_not_exists e name cols st = Inr st' \<Longrightarrow>
     common_column_count st' = common_column_count st \<and> imported_files st' = imported_files st"
  by (auto simp: create_table_if_not_exists_def split: option.splits if_splits)

lemma to_sql_append_frame:
  "to_sql_append name cols rows st = Inr st' \<Longrightarrow>
     common_column_count st' = common_column_count st \<and> imported_files st' = imported_files st"
  by (auto simp: to_sql_append_def split: option.splits if_splits)

lemma persist_count:
  "persist e fb f filehash df st = (st', r) \<Longrightarrow> common_column_count st' = common_column_count st"
  by (auto simp: persist_def Let_def record_import_def split: sum.splits if_splits
      dest!: create_table_frame to_sql_append_frame)

lemma persist_ledger_raised:
  "persist e fb f filehash df st = (st', Inl err) \<Longrightarrow> imported_files st' = imported_files st"
  by (auto simp: persist_def Let_def record_import_def split: sum.splits if_splits
      dest!: create_table_frame to_sql_append_frame)

lemma persist_ledger_written:
  "persist e fb f filehash df st = (st', Inr m) \<Longrightarrow>
     imported_files st' = upsert f filehash (imported_files st)"
  by (auto simp: persist_def Let_def record_import_def split: sum.splits if_splits
      dest!: create_table_frame to_sql_append_frame)

lemma primary_path_count:
  "primary_path e f filehash st = (st1, r) \<Longrightarrow>
     common_column_count st1 = common_column_count st \<or>
     (\<exists>n. common_column_count st1 = common_column_count st @ [n])"
  by (auto simp: primary_path_def Let_def split: sum.splits dest!: persist_count)

section \<open>The column count of the fallback path\<close>

text \<open>
  C1, as the code has it. When the primary path fails for a file, the fallback reads the
  file again and keeps as many leading columns as the first entry of
  \<open>common_column_count\<close> says, or 5 when the list is empty. The list gets one entry, at
  its end, each time a primary parse and normalisation succeed (line 88), so its first
  entry is the earliest column count recorded since the process started, not the most
  recent one; it may be the failing file's own count, when its primary path failed after
  line 88. Each row keeps its leading columns and loses the others; the columns are named
  \<open>column_1\<close>, \<open>column_2\<close>, ...
\<close>

theorem fallback_uses_first_recorded_count:
  assumes "get_file_hash e f = Some filehash"
    and "\<not> already_imported st f filehash"
    and "primary_path e f filehash st = (st1, Inl err)"
    and "read_csv e f (CHR '','') False = Some df"
  shows "process_file e f st =
      (case persist e True f filehash
              (synthetic_columns
                 (iloc_columns (case common_column_count st1 of [] \<Rightarrow> 5 | n # ns \<Rightarrow> n) df)) st1 of
         (st2, Inr m) \<Rightarrow> Inr ([TryingFallback f, m], st2)
       | (st2, Inl inner_e) \<Rightarrow> Inr ([TryingFallback f, FailedImport f], st2))
    \<and> (common_column_count st1 = common_column_count st \<or>
        (\<exists>n. common_column_count st1 = common_column_count st @ [n]))
    \<and> infer_columns_structure ((n # ns) @ [m]) = n
    \<and> body (iloc_columns k df) = map (take k) (body df)
    \<and> labels (synthetic_columns (iloc_columns k df)) =
        map (\<lambda>i. Name (column_name i)) [0 ..< min k (length (labels df))]"
proof (intro conjI)
  show "process_file e f st =
      (case persist e True f filehash
              (synthetic_columns
                 (iloc_columns (case common_column_count st1 of [] \<Rightarrow> 5 | n # ns \<Rightarrow> n) df)) st1 of
         (st2, Inr m) \<Rightarrow> Inr ([TryingFallback f, m], st2)
       | (st2, Inl inner_e) \<Rightarrow> Inr ([TryingFallback f, FailedImport f], st2))"
    using assms
    by (simp add: process_file_def fallback_path_def fallback_read_def
        infer_columns_structure_def)
  show "common_column_count st1 = common_column_count st \<or>
        (\<exists>n. common_column_count st1 = common_column_count st @ [n])"
    using assms(3) by (rule primary_path_count)
  show "infer_columns_structure ((n # ns) @ [m]) = n"
    by (simp add: infer_columns_structure_def)
  show "body (iloc_columns k df) = map (take k) (body df)"
    by (simp add: iloc_columns_def)
  show "labels (synthetic_columns (iloc_columns k df)) =
        map (\<lambda>i. Name (column_name i)) [0 ..< min k (length (labels df))]"
    by (simp add: synthetic_columns_def iloc_columns_def min.commute)
qed

theorem fallback_uses_first_recorded_count_witness:
  "get_file_hash (env_of counts_folder) ''in/z.csv'' = Some (''a,b,c,d,e,f'' @ [CHR 0x0A]) \<and>
   \<not> already_imported counts_before_z ''in/z.csv'' (''a,b,c,d,e,f'' @ [CHR 0x0A]) \<and>
   primary_path (env_of counts_folder) ''in/z.csv'' (''a,b,c,d,e,f'' @ [CHR 0x0A]) counts_before_z =
     (counts_before_z, Inl ValueError) \<and>
   read_csv (env_of counts_folder) ''in/z.csv'' (CHR '','') False =
     Some \<lparr>labels = [Pos 0, Pos 1, Pos 2, Pos 3, Pos 4, Pos 5],
           body = [[Text ''a'', Text ''b'', Text ''c'', Text ''d'', Text ''e'', Text ''f'']]\<rparr> \<and>
   common_column_count counts_before_z = [3, 4] \<and>
   process_file (env_of counts_folder) ''in/z.csv'' counts_before_z =
     (case persist (env_of counts_folder) True ''in/z.csv'' (''a,b,c,d,e,f'' @ [CHR 0x0A])
             (synthetic_columns (iloc_columns 3
                \<lparr>labels = [Pos 0, Pos 1, Pos 2, Pos 3, Pos 4, Pos 5],
                 body = [[Text ''a'', Text ''b'', Text ''c'', Text ''d'', Text ''e'', Text ''f'']]\<rparr>))
             counts_before_z of
        (st2, Inr m) \<Rightarrow> Inr ([TryingFallback ''in/z.csv'', m], st2)
      | (st2, Inl inner_e) \<Rightarrow> Inr ([TryingFallback ''in/z.csv'', FailedImport ''in/z.csv''], st2))"
proof -
  have h1: "get_file_hash (env_of counts_folder) ''in/z.csv'' = Some (''a,b,c,d,e,f'' @ [CHR 0x0A])"
    by code_simp
  have h2: "\<not> already_imported counts_before_z ''in/z.csv'' (''a,b,c,d,e,f'' @ [CHR 0x0A])"
    by code_simp
  have h3: "primary_path (env_of counts_folder) ''in/z.csv'' (''a,b,c,d,e,f'' @ [CHR 0x0A])
      counts_before_z = (counts_before_z, Inl ValueError)"
    by code_simp
  have h4: "read_csv (env_of counts_folder) ''in/z.csv'' (CHR '','') False =
     Some \<lparr>labels = [Pos 0, Pos 1, Pos 2, Pos 3, Pos 4, Pos 5],
           body = [[Text ''a'', Text ''b'', Text ''c'', Text ''d'', Text ''e'', Text ''f'']]\<rparr>"
    by code_simp
  have h5: "common_column_count counts_before_z = [3, 4]"
    by code_simp
  from fallback_uses_first_recorded_count [OF h1 h2 h3 h4] h1 h2 h3 h4 h5
  show ?thesis by simp
qed

text \<open>
  C1 as stated fails when two files with different column counts were read before the
  failing one: after counts 3 and 4 were recorded in this order, the fallback of the
  third file keeps 3 columns, the earliest count, not 4, the most recent one.
\<close>

theorem fallback_count_not_most_recent_counterexample:
  "common_column_count (snd (snd counts_run)) = [3, 4] \<and>
   map_option tcols (map_of (tables (snd (snd counts_run))) ''csv_table_z'') =
     Some [''column_1'', ''column_2'', ''column_3'', ''_hash''] \<and>
   map_option trows (map_of (tables (snd (snd counts_run))) ''csv_table_z'') =
     Some [[Some ''a'', Some ''b'', Some ''c'', Some ''abc'']]"
  by code_simp

section \<open>Row digests and the filter on stored hashes\<close>













section \<open>Column names from a header\<close>

text \<open>
  C6, at the example of the specification. The file holds the header line
  \<open>Name,,Age\<close> and one row; the sniffer finds the comma and a header. Line 86 replaces a
  label that is empty or holds white space only by \<open>column_<position>\<close>: handed the
  labels \<open>Name\<close>, empty, \<open>Age\<close> it gives \<open>Name\<close>, \<open>column_2\<close>, \<open>Age\<close>, and the same
  for a label of one space. The parser, however, never hands it an empty label: it labels
  the empty header field \<open>Unnamed: 1\<close>, which line 86 keeps. The table is created with
  the columns \<open>Name\<close>, \<open>Unnamed: 1\<close>, \<open>Age\<close> and \<open>_hash\<close>, not with \<open>column_2\<close>.
\<close>

theorem blank_header_stored_as_unnamed:
  "sniff (env_of names_folder) ''in/n.csv'' = Inr (CHR '','', True) \<and>
   read_csv (env_of names_folder) ''in/n.csv'' (CHR '','') True =
     Some \<lparr>labels = [Name ''Name'', Name ''Unnamed: 1'', Name ''Age''],
           body = [[Text ''ann'', Text ''ops'', Text ''7'']]\<rparr> \<and>
   primary_frame (env_of names_folder) ''in/n.csv'' =
     Inr \<lparr>labels = [Name ''Name'', Name ''Unnamed: 1'', Name ''Age''],
          body = [[Text ''ann'', Text ''ops'', Text ''7'']]\<rparr> \<and>
   import_csvs_to_db (env_of names_folder) [''in/n.csv''] empty_state =
     (None, [Imported 1 ''csv_table_n''],
      \<lparr>common_column_count = [3],
       tables = [(''csv_table_n'',
                  \<lparr>tcols = [''Name'', ''Unnamed: 1'', ''Age'', ''_hash''],
                   trows = [[Some ''ann'', Some ''ops'', Some ''7'', Some ''annops7'']]\<rparr>)],
       imported_files = [(''in/n.csv'', ''Name,,Age'' @ [CHR 0x0A] @ ''ann,ops,7'' @ [CHR 0x0A])]\<rparr>) \<and>
   labels (header_columns \<lparr>labels = [Name ''Name'', Name [], Name ''Age''],
                           body = [[Text ''ann'', Text ''ops'', Text ''7'']]\<rparr>) =
     [Name ''Name'', Name ''column_2'', Name ''Age''] \<and>
   labels (header_columns \<lparr>labels = [Name ''Name'', Name '' '', Name ''Age''],
                           body = [[Text ''ann'', Text ''ops'', Text ''7'']]\<rparr>) =
     [Name ''Name'', Name ''column_2'', Name ''Age'']"
  by code_simp
section \<open>The delimiter of the fallback path\<close>

lemma row_hash_ignores_reader:
  "row_hash (e\<lparr>read_csv := rc, sniff_delimiter := sd, sniff_has_header := sh\<rparr>) = row_hash e"
proof -
  have "\<And>x. astype_entry (e\<lparr>read_csv := rc, sniff_delimiter := sd, sniff_has_header := sh\<rparr>) x =
      astype_entry e x"
    by (case_tac x) simp_all
  then have "astype_entry (e\<lparr>read_csv := rc, sniff_delimiter := sd, sniff_has_header := sh\<rparr>) =
      astype_entry e"
    by (rule ext)
  then have "\<And>row. row_hash (e\<lparr>read_csv := rc, sniff_delimiter := sd, sniff_has_header := sh\<rparr>) row =
      row_hash e row"
    by (simp add: row_hash_def)
  then show ?thesis
    by (rule ext)
qed

lemma with_hash_ignores_reader:
  "with_hash (e\<lparr>read_csv := rc, sniff_delimiter := sd, sniff_has_header := sh\<rparr>) df =
     with_hash e df"
  unfolding with_hash_def row_hash_ignores_reader
  by (rule refl)

lemma create_table_ignores_reader:
  "create_table_if_not_exists (e\<lparr>read_csv := rc, sniff_delimiter := sd, sniff_has_header := sh\<rparr>)
     name cols st = create_table_if_not_exists e name cols st"
  by (simp add: create_table_if_not_exists_def split: option.split)

lemma persist_ignores_reader:
  "persist (e\<lparr>read_csv := rc, sniff_delimiter := sd, sniff_has_header := sh\<rparr>) fb f filehash df st =
     persist e fb f filehash df st"
  unfolding persist_def with_hash_ignores_reader create_table_ignores_reader
  by (rule refl)

lemma fallback_path_comma:
  "fallback_path e f filehash st =
     (case read_csv e f (CHR '','') False of
        None \<Rightarrow> (st, Inl ParseError)
      | Some df \<Rightarrow>
          persist e True f filehash
            (synthetic_columns
               (iloc_columns (infer_columns_structure (common_column_count st)) df)) st)"
  by (simp add: fallback_path_def fallback_read_def split: option.split)

text \<open>
  C9. The fallback reads the file with the comma as delimiter and without header, and
  stores what that read returns (its leading columns, under the names \<open>column_1\<close>,
  \<open>column_2\<close>, ...); a file whose primary path raised is handed to it. What the sniffer
  found and what the file gives under any other delimiter do not reach the fallback: its
  result is the same for every sniffer and every reader that agree on the read with a
  comma. A file whose fields are separated by another character and that reaches the
  fallback is therefore split at commas.
\<close>

theorem fallback_reads_with_comma:
  "fallback_path e f filehash st =
     (case read_csv e f (CHR '','') False of
        None \<Rightarrow> (st, Inl ParseError)
      | Some df \<Rightarrow>
          persist e True f filehash
            (synthetic_columns
               (iloc_columns (infer_columns_structure (common_column_count st)) df)) st)
   \<and> (get_file_hash e f = Some filehash \<and> \<not> already_imported st f filehash \<and>
      primary_path e f filehash st = (st1, Inl err) \<longrightarrow>
        process_file e f st =
          (case (case read_csv e f (CHR '','') False of
                   None \<Rightarrow> (st1, Inl ParseError)
                 | Some df \<Rightarrow>
                     persist e True f filehash
                       (synthetic_columns
                          (iloc_columns (infer_columns_structure (common_column_count st1)) df))
                       st1) of
             (st2, Inr m) \<Rightarrow> Inr ([TryingFallback f, m], st2)
           | (st2, Inl inner_e) \<Rightarrow> Inr ([TryingFallback f, FailedImport f], st2)))
   \<and> (rc f (CHR '','') False = read_csv e f (CHR '','') False \<longrightarrow>
        fallback_path (e\<lparr>read_csv := rc, sniff_delimiter := sd, sniff_has_header := sh\<rparr>)
          f filehash st = fallback_path e f filehash st)"
proof (intro conjI impI)
  show "fallback_path e f filehash st =
     (case read_csv e f (CHR '','') False of
        None \<Rightarrow> (st, Inl ParseError)
      | Some df \<Rightarrow>
          persist e True f filehash
            (synthetic_columns
               (iloc_columns (infer_columns_structure (common_column_count st)) df)) st)"
    by (rule fallback_path_comma)
next
  assume a: "get_file_hash e f = Some filehash \<and> \<not> already_imported st f filehash \<and>
      primary_path e f filehash st = (st1, Inl err)"
  then have "process_file e f st =
      (case fallback_path e f filehash st1 of
         (st2, Inr m) \<Rightarrow> Inr ([TryingFallback f, m], st2)
       | (st2, Inl inner_e) \<Rightarrow> Inr ([TryingFallback f, FailedImport f], st2))"
    by (simp add: process_file_def)
  then show "process_file e f st =
          (case (case read_csv e f (CHR '','') False of
                   None \<Rightarrow> (st1, Inl ParseError)
                 | Some df \<Rightarrow>
                     persist e True f filehash
                       (synthetic_columns
                          (iloc_columns (infer_columns_structure (common_column_count st1)) df))
                       st1) of
             (st2, Inr m) \<Rightarrow> Inr ([TryingFallback f, m], st2)
           | (st2, Inl inner_e) \<Rightarrow> Inr ([TryingFallback f, FailedImport f], st2))"
    by (simp only: fallback_path_comma)
next
  assume "rc f (CHR '','') False = read_csv e f (CHR '','') False"
  then show "fallback_path (e\<lparr>read_csv := rc, sniff_delimiter := sd, sniff_has_header := sh\<rparr>)
          f filehash st = fallback_path e f filehash st"
    unfolding fallback_path_comma persist_ignores_reader
    by simp
qed

theorem fallback_reads_with_comma_witness:
  "sniff (env_of semicolon_folder) ''in/s.csv'' = Inr (CHR '';'', True) \<and>
   read_csv (env_of semicolon_folder) ''in/s.csv'' (CHR '';'') False =
     Some \<lparr>labels = [Pos 0, Pos 1, Pos 2], body = [[Text ''a'', Text ''b'', Text ''c'']]\<rparr> \<and>
   read_csv (env_of semicolon_folder) ''in/s.csv'' (CHR '','') False =
     Some \<lparr>labels = [Pos 0], body = [[Text ''a;b;c'']]\<rparr> \<and>
   get_file_hash (env_of semicolon_folder) ''in/s.csv'' = Some (''a;b;c'' @ [CHR 0x0A]) \<and>
   \<not> already_imported empty_state ''in/s.csv'' (''a;b;c'' @ [CHR 0x0A]) \<and>
   primary_path (env_of semicolon_folder) ''in/s.csv'' (''a;b;c'' @ [CHR 0x0A]) empty_state =
     (empty_state, Inl ValueError) \<and>
   fallback_path (env_of semicolon_folder) ''in/s.csv'' (''a;b;c'' @ [CHR 0x0A]) empty_state =
     (\<lparr>common_column_count = [],
       tables = [(''csv_table_s'',
                  \<lparr>tcols = [''column_1'', ''_hash''], trows = [[Some ''a;b;c'', Some ''a;b;c'']]\<rparr>)],
       imported_files = [(''in/s.csv'', ''a;b;c'' @ [CHR 0x0A])]\<rparr>,
      Inr (FallbackImported 1 ''csv_table_s'')) \<and>
   process_file (env_of semicolon_folder) ''in/s.csv'' empty_state =
     Inr ([TryingFallback ''in/s.csv'', FallbackImported 1 ''csv_table_s''],
          \<lparr>common_column_count = [],
           tables = [(''csv_table_s'',
                      \<lparr>tcols = [''column_1'', ''_hash''],
                       trows = [[Some ''a;b;c'', Some ''a;b;c'']]\<rparr>)],
           imported_files = [(''in/s.csv'', ''a;b;c'' @ [CHR 0x0A])]\<rparr>) \<and>
   fallback_path
     ((env_of semicolon_folder)
        \<lparr>read_csv := (\<lambda>p d h. if d = CHR '','' then read_csv (env_of semicolon_folder) p d h
                               else None),
         sniff_delimiter := (\<lambda>sample. Some (CHR ''|'')),
         sniff_has_header := (\<lambda>sample. None)\<rparr>)
     ''in/s.csv'' (''a;b;c'' @ [CHR 0x0A]) empty_state =
     (\<lparr>common_column_count = [],
       tables = [(''csv_table_s'',
                  \<lparr>tcols = [''column_1'', ''_hash''], trows = [[Some ''a;b;c'', Some ''a;b;c'']]\<rparr>)],
       imported_files = [(''in/s.csv'', ''a;b;c'' @ [CHR 0x0A])]\<rparr>,
      Inr (FallbackImported 1 ''csv_table_s''))"
proof -
  let ?e = "env_of semicolon_folder"
  let ?h = "''a;b;c'' @ [CHR 0x0A]"
  let ?rc = "\<lambda>p d h. if d = CHR '','' then read_csv ?e p d h else None"
  let ?df = "\<lparr>labels = [Pos 0], body = [[Text ''a;b;c'']]\<rparr>"
  let ?st = "\<lparr>common_column_count = [],
       tables = [(''csv_table_s'',
                  \<lparr>tcols = [''column_1'', ''_hash''], trows = [[Some ''a;b;c'', Some ''a;b;c'']]\<rparr>)],
       imported_files = [(''in/s.csv'', ?h)]\<rparr>"
  have s: "sniff ?e ''in/s.csv'' = Inr (CHR '';'', True)"
    by code_simp
  have r: "read_csv ?e ''in/s.csv'' (CHR '';'') False =
     Some \<lparr>labels = [Pos 0, Pos 1, Pos 2], body = [[Text ''a'', Text ''b'', Text ''c'']]\<rparr>"
    by code_simp
  have c: "read_csv ?e ''in/s.csv'' (CHR '','') False = Some ?df"
    by code_simp
  have h1: "get_file_hash ?e ''in/s.csv'' = Some ?h"
    by code_simp
  have h2: "\<not> already_imported empty_state ''in/s.csv'' ?h"
    by code_simp
  have h3: "primary_path ?e ''in/s.csv'' ?h empty_state = (empty_state, Inl ValueError)"
    by code_simp
  have h4: "?rc ''in/s.csv'' (CHR '','') False = read_csv ?e ''in/s.csv'' (CHR '','') False"
    by simp
  have p: "persist ?e True ''in/s.csv'' ?h
      (synthetic_columns (iloc_columns (infer_columns_structure (common_column_count empty_state)) ?df))
      empty_state = (?st, Inr (FallbackImported 1 ''csv_table_s''))"
    by code_simp
  note T = fallback_reads_with_comma
    [where e = ?e and f = "''in/s.csv''" and filehash = ?h and st = empty_state
       and ?st1.0 = empty_state and err = ValueError and rc = ?rc
       and sd = "\<lambda>sample. Some (CHR ''|'')" and sh = "\<lambda>sample. None"]
  from T c p have f: "fallback_path ?e ''in/s.csv'' ?h empty_state =
      (?st, Inr (FallbackImported 1 ''csv_table_s''))"
    by simp
  from T h1 h2 h3 have "process_file ?e ''in/s.csv'' empty_state =
          (case (case read_csv ?e ''in/s.csv'' (CHR '','') False of
                   None \<Rightarrow> (empty_state, Inl ParseError)
                 | Some df \<Rightarrow>
                     persist ?e True ''in/s.csv'' ?h
                       (synthetic_columns
                          (iloc_columns (infer_columns_structure (common_column_count empty_state)) df))
                       empty_state) of
             (st2, Inr m) \<Rightarrow> Inr ([TryingFallback ''in/s.csv'', m], st2)
           | (st2, Inl inner_e) \<Rightarrow> Inr ([TryingFallback ''in/s.csv'', FailedImport ''in/s.csv''], st2))"
    by blast
  with c p have q: "process_file ?e ''in/s.csv'' empty_state =
      Inr ([TryingFallback ''in/s.csv'', FallbackImported 1 ''csv_table_s''], ?st)"
    by simp
  from T h4 have "fallback_path
      (?e\<lparr>read_csv := ?rc, sniff_delimiter := (\<lambda>sample. Some (CHR ''|'')),
          sniff_has_header := (\<lambda>sample. None)\<rparr>) ''in/s.csv'' ?h empty_state =
      fallback_path ?e ''in/s.csv'' ?h empty_state"
    by blast
  with f have g: "fallback_path
      (?e\<lparr>read_csv := ?rc, sniff_delimiter := (\<lambda>sample. Some (CHR ''|'')),
          sniff_has_header := (\<lambda>sample. None)\<rparr>) ''in/s.csv'' ?h empty_state =
      (?st, Inr (FallbackImported 1 ''csv_table_s''))"
    by (simp only:)
  from s r c h1 h2 h3 f q g show ?thesis
    by blast
qed
section \<open>Errors inside and outside the \<open>try\<close>\<close>

lemma process_file_catches:
  "get_file_hash e f = Some filehash \<Longrightarrow> \<exists>ms st'. process_file e f st = Inr (ms, st')"
  by (simp add: process_file_def split: prod.split sum.split)

text \<open>
  C5 does not hold for the code. Every failure inside the \<open>try\<close> of one file is caught
  (\<open>process_file_catches\<close>), but \<open>get_file_hash\<close> is called before the \<open>try\<close>: for a
  folder whose first entry cannot be read, the loop ends with the error, nothing is
  printed or stored, and the readable second file is not processed. With the readable
  file first, it is imported and then the loop ends with the error.
\<close>

theorem hash_error_aborts_batch:
  "import_csvs_to_db (env_of locked_folder) [''in/archive.csv'', ''in/b.csv''] empty_state =
     (Some IOError, [], empty_state)
   \<and> import_csvs_to_db (env_of locked_folder) [''in/b.csv''] empty_state =
     (None, [Imported 2 ''csv_table_b''],
      \<lparr>common_column_count = [2],
       tables = [(''csv_table_b'',
                  \<lparr>tcols = [''column_1'', ''column_2'', ''_hash''],
                   trows = [[Some ''1'', Some ''x'', Some ''1x''],
                            [Some ''2'', Some ''y'', Some ''2y'']]\<rparr>)],
       imported_files = [(''in/b.csv'', ''1,x'' @ [CHR 0x0A] @ ''2,y'' @ [CHR 0x0A])]\<rparr>)
   \<and> fst (import_csvs_to_db (env_of locked_folder) [''in/b.csv'', ''in/archive.csv''] empty_state) =
     Some IOError"
  by code_simp

section \<open>The ledger after a failure\<close>

lemma primary_path_ledger_raised:
  "primary_path e f filehash st = (st1, Inl err) \<Longrightarrow> imported_files st1 = imported_files st"
  by (auto simp: primary_path_def Let_def split: sum.splits dest!: persist_ledger_raised)

lemma fallback_path_ledger_raised:
  "fallback_path e f filehash st = (st1, Inl err) \<Longrightarrow> imported_files st1 = imported_files st"
  by (auto simp: fallback_path_def split: sum.splits dest!: persist_ledger_raised)

lemma primary_path_ledger_written:
  "primary_path e f filehash st = (st1, Inr m) \<Longrightarrow>
     imported_files st1 = upsert f filehash (imported_files st)"
  by (auto simp: primary_path_def Let_def split: sum.splits dest!: persist_ledger_written)

lemma fallback_path_ledger_written:
  "fallback_path e f filehash st = (st1, Inr m) \<Longrightarrow>
     imported_files st1 = upsert f filehash (imported_files st)"
  by (auto simp: fallback_path_def split: sum.splits dest!: persist_ledger_written)

text \<open>
  C7, as the code has it. An exception raised during persistence leaves the ledger as it
  was at that point. On the primary path the exception hands the file to the fallback
  path, and the ledger entry is written if the fallback completes. When persistence (or
  anything else) raises on the fallback path too, the file has failed: its ledger entry
  keeps its previous hash or stays absent, and the test that skips imported files fails
  again in the next run, so the file is processed again.
\<close>

theorem failed_file_leaves_ledger:
  assumes "get_file_hash e f = Some filehash"
    and "\<not> already_imported st f filehash"
    and "primary_path e f filehash st = (st1, Inl err1)"
  shows "(persist e fb f filehash df s = (s', Inl err) \<longrightarrow> imported_files s' = imported_files s)
     \<and> (fallback_path e f filehash st1 = (st2, Inl err2) \<longrightarrow>
          process_file e f st = Inr ([TryingFallback f, FailedImport f], st2) \<and>
          imported_files st2 = imported_files st \<and>
          \<not> already_imported st2 f filehash)
     \<and> (fallback_path e f filehash st1 = (st3, Inr m) \<longrightarrow>
          process_file e f st = Inr ([TryingFallback f, m], st3) \<and>
          imported_files st3 = upsert f filehash (imported_files st))"
proof (intro conjI impI)
  have l1: "imported_files st1 = imported_files st"
    using assms(3) by (rule primary_path_ledger_raised)
  show "imported_files s' = imported_files s" if "persist e fb f filehash df s = (s', Inl err)"
    using that by (rule persist_ledger_raised)
  show "process_file e f st = Inr ([TryingFallback f, FailedImport f], st2)"
    if "fallback_path e f filehash st1 = (st2, Inl err2)"
    using that assms by (simp add: process_file_def)
  show l2: "imported_files st2 = imported_files st"
    if "fallback_path e f filehash st1 = (st2, Inl err2)"
    using fallback_path_ledger_raised [OF that] l1 by simp
  show "\<not> already_imported st2 f filehash"
    if "fallback_path e f filehash st1 = (st2, Inl err2)"
    using l2 [OF that] assms(2) by (simp add: already_imported_def)
  show "process_file e f st = Inr ([TryingFallback f, m], st3)"
    if "fallback_path e f filehash st1 = (st3, Inr m)"
    using that assms by (simp add: process_file_def)
  show "imported_files st3 = upsert f filehash (imported_files st)"
    if "fallback_path e f filehash st1 = (st3, Inr m)"
    using fallback_path_ledger_written [OF that] l1 by simp
qed

theorem failed_file_leaves_ledger_witness:
  "get_file_hash (env_of templates_folder) ''in/a_b.csv'' = Some (''id,name,city'' @ [CHR 0x0A]) \<and>
   \<not> already_imported templates_before_a_b ''in/a_b.csv'' (''id,name,city'' @ [CHR 0x0A]) \<and>
   primary_path (env_of templates_folder) ''in/a_b.csv'' (''id,name,city'' @ [CHR 0x0A])
       templates_before_a_b = (templates_before_a_b, Inl ValueError) \<and>
   fallback_path (env_of templates_folder) ''in/a_b.csv'' (''id,name,city'' @ [CHR 0x0A])
       templates_before_a_b = (templates_before_a_b, Inl OperationalError) \<and>
   process_file (env_of templates_folder) ''in/a_b.csv'' templates_before_a_b =
     Inr ([TryingFallback ''in/a_b.csv'', FailedImport ''in/a_b.csv''], templates_before_a_b) \<and>
   \<not> already_imported templates_before_a_b ''in/a_b.csv'' (''id,name,city'' @ [CHR 0x0A]) \<and>
   get_file_hash (env_of people_folder) ''in/people.csv'' = Some people_hash \<and>
   \<not> already_imported people_state ''in/people.csv'' people_hash \<and>
   primary_path (env_of people_folder) ''in/people.csv'' people_hash people_state =
     (people_state\<lparr>common_column_count := [2]\<rparr>, Inl OperationalError) \<and>
   fallback_path (env_of people_folder) ''in/people.csv'' people_hash
       (people_state\<lparr>common_column_count := [2]\<rparr>) =
     (people_after, Inr (FallbackImported 2 ''csv_table_people'')) \<and>
   process_file (env_of people_folder) ''in/people.csv'' people_state =
     Inr ([TryingFallback ''in/people.csv'', FallbackImported 2 ''csv_table_people''], people_after) \<and>
   imported_files people_after = upsert ''in/people.csv'' people_hash (imported_files people_state)"
proof -
  have a1: "get_file_hash (env_of templates_folder) ''in/a_b.csv'' =
      Some (''id,name,city'' @ [CHR 0x0A])"
    by code_simp
  have a2: "\<not> already_imported templates_before_a_b ''in/a_b.csv'' (''id,name,city'' @ [CHR 0x0A])"
    by code_simp
  have a3: "primary_path (env_of templates_folder) ''in/a_b.csv'' (''id,name,city'' @ [CHR 0x0A])
       templates_before_a_b = (templates_before_a_b, Inl ValueError)"
    by code_simp
  have a4: "fallback_path (env_of templates_folder) ''in/a_b.csv'' (''id,name,city'' @ [CHR 0x0A])
       templates_before_a_b = (templates_before_a_b, Inl OperationalError)"
    by code_simp
  have b1: "get_file_hash (env_of people_folder) ''in/people.csv'' = Some people_hash"
    by code_simp
  have b2: "\<not> already_imported people_state ''in/people.csv'' people_hash"
    by code_simp
  have b3: "primary_path (env_of people_folder) ''in/people.csv'' people_hash people_state =
     (people_state\<lparr>common_column_count := [2]\<rparr>, Inl OperationalError)"
    by code_simp
  have b4: "fallback_path (env_of people_folder) ''in/people.csv'' people_hash
       (people_state\<lparr>common_column_count := [2]\<rparr>) =
     (people_after, Inr (FallbackImported 2 ''csv_table_people''))"
    by code_simp
  note A = failed_file_leaves_ledger [OF a1 a2 a3, where ?st2.0 = templates_before_a_b
      and ?err2.0 = OperationalError]
  note B = failed_file_leaves_ledger [OF b1 b2 b3, where ?st3.0 = people_after
      and m = "FallbackImported 2 ''csv_table_people''"]
  from A a4 have c1: "process_file (env_of templates_folder) ''in/a_b.csv'' templates_before_a_b =
     Inr ([TryingFallback ''in/a_b.csv'', FailedImport ''in/a_b.csv''], templates_before_a_b)"
    by blast
  from B b4 have c2: "process_file (env_of people_folder) ''in/people.csv'' people_state =
     Inr ([TryingFallback ''in/people.csv'', FallbackImported 2 ''csv_table_people''], people_after)"
    and c3: "imported_files people_after =
      upsert ''in/people.csv'' people_hash (imported_files people_state)"
    by blast+
  from a1 a2 a3 a4 c1 b1 b2 b3 b4 c2 c3 show ?thesis by blast
qed

text \<open>
  C7 as stated fails on the primary path. The file has a header line now, its table was
  created without header earlier: the rows parse, the insertion raises (the table has no
  column \<open>name\<close>), the fallback reads the file without header and stores the header
  line and the new row, and the ledger entry is written with the current hash, so the
  next run skips the file.
\<close>

theorem persistence_error_ledger_written_counterexample:
  "primary_frame (env_of people_folder) ''in/people.csv'' =
     Inr \<lparr>labels = [Name ''name'', Name ''age''],
          body = [[Text ''alice'', Text ''30''], [Text ''carol'', Text ''41'']]\<rparr> \<and>
   persist (env_of people_folder) False ''in/people.csv'' people_hash
       \<lparr>labels = [Name ''name'', Name ''age''],
        body = [[Text ''alice'', Text ''30''], [Text ''carol'', Text ''41'']]\<rparr>
       (people_state\<lparr>common_column_count := [2]\<rparr>) =
     (people_state\<lparr>common_column_count := [2]\<rparr>, Inl OperationalError) \<and>
   process_file (env_of people_folder) ''in/people.csv'' people_state =
     Inr ([TryingFallback ''in/people.csv'', FallbackImported 2 ''csv_table_people''], people_after) \<and>
   imported_files people_state = [(''in/people.csv'', ''alice,30'' @ [CHR 0x0A])] \<and>
   imported_files people_after = [(''in/people.csv'', people_hash)] \<and>
   process_file (env_of people_folder) ''in/people.csv'' people_after =
     Inr ([Skipping ''in/people.csv''], people_after)"
  by code_simp

section \<open>Importing a folder twice\<close>

lemma map_of_upsert: "map_of (upsert k v kvs) k' = (if k' = k then Some v else map_of kvs k')"
  by (induction kvs) auto

lemma process_file_skips:
  "get_file_hash e f = Some filehash \<Longrightarrow> already_imported st f filehash \<Longrightarrow>
     process_file e f st = Inr ([Skipping f], st)"
  by (simp add: process_file_def)

lemma process_file_ledger_cases:
  assumes "process_file e f st = Inr (ms, st')"
  shows "imported_files st' = imported_files st \<or>
     (\<exists>h. get_file_hash e f = Some h \<and> imported_files st' = upsert f h (imported_files st))"
proof -
  from assms obtain h where h: "get_file_hash e f = Some h"
    by (auto simp: process_file_def split: option.splits)
  show ?thesis
  proof (cases "already_imported st f h")
    case True
    with assms h show ?thesis by (simp add: process_file_def)
  next
    case False
    obtain st1 r1 where p: "primary_path e f h st = (st1, r1)" by force
    show ?thesis
    proof (cases r1)
      case (Inr m)
      with assms h False p have "st' = st1" by (simp add: process_file_def)
      with primary_path_ledger_written p Inr h show ?thesis by blast
    next
      case (Inl err)
      with p have l1: "imported_files st1 = imported_files st"
        using primary_path_ledger_raised by blast
      obtain st2 r2 where q: "fallback_path e f h st1 = (st2, r2)" by force
      from assms h False p Inl q have s: "st' = st2"
        by (auto simp: process_file_def split: sum.splits)
      show ?thesis
      proof (cases r2)
        case (Inl err2)
        with q have "imported_files st2 = imported_files st1"
          using fallback_path_ledger_raised by blast
        with l1 s show ?thesis by simp
      next
        case (Inr m)
        with q have "imported_files st2 = upsert f h (imported_files st1)"
          using fallback_path_ledger_written by blast
        with l1 s h show ?thesis by simp
      qed
    qed
  qed
qed

lemma process_file_recorded:
  assumes "process_file e f st = Inr (ms, st')" and "\<not> list_ex is_failed ms"
  shows "\<exists>h. get_file_hash e f = Some h \<and> already_imported st' f h"
proof -
  from assms(1) obtain h where h: "get_file_hash e f = Some h"
    by (auto simp: process_file_def split: option.splits)
  show ?thesis
  proof (cases "already_imported st f h")
    case True
    with assms h show ?thesis by (simp add: process_file_def)
  next
    case False
    obtain st1 r1 where p: "primary_path e f h st = (st1, r1)" by force
    show ?thesis
    proof (cases r1)
      case (Inr m)
      with assms h False p have "st' = st1" by (simp add: process_file_def)
      with primary_path_ledger_written p Inr h show ?thesis
        by (auto simp: already_imported_def map_of_upsert)
    next
      case (Inl err)
      with p have l1: "imported_files st1 = imported_files st"
        using primary_path_ledger_raised by blast
      obtain st2 r2 where q: "fallback_path e f h st1 = (st2, r2)" by force
      show ?thesis
      proof (cases r2)
        case (Inl err2)
        with assms h False p \<open>r1 = Inl err\<close> q show ?thesis
          by (auto simp: process_file_def)
      next
        case (Inr m)
        with assms h False p \<open>r1 = Inl err\<close> q have "st' = st2"
          by (simp add: process_file_def)
        moreover from q Inr have "imported_files st2 = upsert f h (imported_files st1)"
          using fallback_path_ledger_written by blast
        ultimately show ?thesis
          using h by (auto simp: already_imported_def map_of_upsert)
      qed
    qed
  qed
qed

lemma process_file_keeps_recorded:
  assumes "process_file e g st = Inr (ms, st')"
    and "get_file_hash e f = Some h" and "already_imported st f h"
  shows "already_imported st' f h"
  using process_file_ledger_cases [OF assms(1)] assms(2,3)
  by (auto simp: already_imported_def map_of_upsert)

lemma import_files_keeps_recorded:
  "import_files e fs st = (r, ms, st') \<Longrightarrow> get_file_hash e f = Some h \<Longrightarrow>
     already_imported st f h \<Longrightarrow> already_imported st' f h"
proof (induction fs arbitrary: st ms)
  case Nil
  then show ?case by simp
next
  case (Cons g gs)
  show ?case
  proof (cases "process_file e g st")
    case (Inl err)
    with Cons.prems show ?thesis by simp
  next
    case (Inr p)
    obtain ms1 st1 where p: "p = (ms1, st1)" by force
    obtain r2 ms2 st2 where rest: "import_files e gs st1 = (r2, ms2, st2)"
      by (metis prod_cases3)
    from Cons.prems(1) Inr p rest have rest': "import_files e gs st1 = (r, ms2, st')"
      by simp
    have "already_imported st1 f h"
      using process_file_keeps_recorded Inr p Cons.prems(2,3) by blast
    then show ?thesis
      using Cons.IH [OF rest' Cons.prems(2)] by simp
  qed
qed

lemma import_files_recorded:
  "import_files e fs st = (None, ms, st') \<Longrightarrow> \<not> list_ex is_failed ms \<Longrightarrow>
     \<forall>f \<in> set fs. \<exists>h. get_file_hash e f = Some h \<and> already_imported st' f h"
proof (induction fs arbitrary: st ms)
  case Nil
  then show ?case by simp
next
  case (Cons g gs)
  show ?case
  proof (cases "process_file e g st")
    case (Inl err)
    with Cons.prems show ?thesis by simp
  next
    case (Inr p)
    obtain ms1 st1 where p: "p = (ms1, st1)" by force
    obtain r2 ms2 st2 where rest: "import_files e gs st1 = (r2, ms2, st2)"
      by (metis prod_cases3)
    from Cons.prems(1) Inr p rest have eq: "r2 = None" "ms = ms1 @ ms2" "st' = st2"
      by simp_all
    from eq Cons.prems(2) have nf: "\<not> list_ex is_failed ms1" "\<not> list_ex is_failed ms2"
      by (simp_all add: list_ex_iff)
    from rest eq have rest': "import_files e gs st1 = (None, ms2, st')"
      by simp
    from process_file_recorded [OF Inr [unfolded p] nf(1)]
    obtain h where h: "get_file_hash e g = Some h" "already_imported st1 g h" by blast
    have "already_imported st' g h"
      using import_files_keeps_recorded [OF rest' h] .
    moreover have "\<forall>f \<in> set gs. \<exists>h. get_file_hash e f = Some h \<and> already_imported st' f h"
      using Cons.IH [OF rest' nf(2)] .
    ultimately show ?thesis using h by auto
  qed
qed

lemma import_files_all_skipped:
  "\<forall>f \<in> set fs. \<exists>h. get_file_hash e f = Some h \<and> already_imported st f h \<Longrightarrow>
     import_files e fs st = (None, map Skipping fs, st)"
  by (induction fs) (auto simp: process_file_skips)

lemma new_rows_none:
  "list_all (\<lambda>row. to_cell (hash_cell df row) \<in> existing_hashes) (body df) \<Longrightarrow>
     new_rows df existing_hashes = []"
  by (simp add: new_rows_def list_all_iff filter_empty_conv)

text \<open>
  C2, as the code has it. A file whose ledger entry holds its name and its current
  content hash is skipped, and the state is left as it is. When the first import of a
  folder raised no error and no file failed in it, every file of the folder has such an
  entry afterwards, so importing the unchanged folder again raises no error, skips every
  file and changes nothing: no row is inserted. This holds whether the second import runs
  in the same process (\<open>ccc\<close> is the list the first import left) or in a new one
  (\<open>ccc\<close> is empty). A file that is processed again although its table holds the
  digest of each of its rows inserts nothing either, when its rows can be hashed and the
  engine parses the \<open>CREATE TABLE\<close> statement of line 94 and reads the stored hashes:
  only the ledger entry is written.
\<close>

theorem second_import_skips_every_file:
  assumes "import_csvs_to_db e csv_files st = (None, log1, st1)"
    and "\<not> list_ex is_failed log1"
  shows "import_csvs_to_db e csv_files (st1\<lparr>common_column_count := ccc\<rparr>) =
       (None, map Skipping csv_files, st1\<lparr>common_column_count := ccc\<rparr>)
     \<and> (get_file_hash e f = Some filehash \<and> already_imported s f filehash \<longrightarrow>
          process_file e f s = Inr ([Skipping f], s))
     \<and> (with_hash e df = Inr dfh \<and>
        sql_parses e (create_table_sql (generate_table_name f) (map str_label (labels dfh))) \<and>
        map_of (tables s) (generate_table_name f) = Some t \<and>
        select_hash (generate_table_name f) s = Inr hashes \<and>
        list_all (\<lambda>row. to_cell (hash_cell dfh row) \<in> set hashes) (body dfh) \<longrightarrow>
          persist e fb f filehash df s =
            (record_import f filehash s, Inr (if fb then FallbackNoNewData f else NoNewData f)) \<and>
          tables (record_import f filehash s) = tables s)"
proof (intro conjI impI)
  from assms have "\<forall>f \<in> set csv_files. \<exists>h. get_file_hash e f = Some h \<and> already_imported st1 f h"
    unfolding import_csvs_to_db_def by (rule import_files_recorded)
  then have "\<forall>f \<in> set csv_files. \<exists>h. get_file_hash e f = Some h \<and>
      already_imported (st1\<lparr>common_column_count := ccc\<rparr>) f h"
    by (simp add: already_imported_def)
  then show "import_csvs_to_db e csv_files (st1\<lparr>common_column_count := ccc\<rparr>) =
       (None, map Skipping csv_files, st1\<lparr>common_column_count := ccc\<rparr>)"
    unfolding import_csvs_to_db_def by (rule import_files_all_skipped)
next
  assume "get_file_hash e f = Some filehash \<and> already_imported s f filehash"
  then show "process_file e f s = Inr ([Skipping f], s)"
    by (simp add: process_file_skips)
next
  assume a: "with_hash e df = Inr dfh \<and>
        sql_parses e (create_table_sql (generate_table_name f) (map str_label (labels dfh))) \<and>
        map_of (tables s) (generate_table_name f) = Some t \<and>
        select_hash (generate_table_name f) s = Inr hashes \<and>
        list_all (\<lambda>row. to_cell (hash_cell dfh row) \<in> set hashes) (body dfh)"
  then have "new_rows dfh (set hashes) = []"
    by (simp add: new_rows_none)
  with a show "persist e fb f filehash df s =
            (record_import f filehash s, Inr (if fb then FallbackNoNewData f else NoNewData f))"
    by (simp add: persist_def create_table_if_not_exists_def)
next
  show "tables (record_import f filehash s) = tables s"
    by (simp add: record_import_def)
qed

theorem second_import_skips_every_file_witness:
  "import_csvs_to_db (env_of counts_folder) [''in/x.csv'', ''in/y.csv'', ''in/z.csv''] empty_state =
     (None,
      [Imported 2 ''csv_table_x'', Imported 2 ''csv_table_y'', TryingFallback ''in/z.csv'',
       FallbackImported 1 ''csv_table_z''],
      snd (snd counts_run)) \<and>
   \<not> list_ex is_failed
      [Imported 2 ''csv_table_x'', Imported 2 ''csv_table_y'', TryingFallback ''in/z.csv'',
       FallbackImported 1 ''csv_table_z''] \<and>
   import_csvs_to_db (env_of counts_folder) [''in/x.csv'', ''in/y.csv'', ''in/z.csv'']
       ((snd (snd counts_run))\<lparr>common_column_count := []\<rparr>) =
     (None, [Skipping ''in/x.csv'', Skipping ''in/y.csv'', Skipping ''in/z.csv''],
      (snd (snd counts_run))\<lparr>common_column_count := []\<rparr>) \<and>
   get_file_hash (env_of counts_folder) ''in/x.csv'' =
     Some (''1,2,3'' @ [CHR 0x0A] @ ''4,5,6'' @ [CHR 0x0A]) \<and>
   already_imported (snd (snd counts_run)) ''in/x.csv'' (''1,2,3'' @ [CHR 0x0A] @ ''4,5,6'' @ [CHR 0x0A]) \<and>
   process_file (env_of counts_folder) ''in/x.csv'' (snd (snd counts_run)) =
     Inr ([Skipping ''in/x.csv''], snd (snd counts_run)) \<and>
   with_hash (env_of counts_folder)
       \<lparr>labels = [Name ''column_1'', Name ''column_2'', Name ''column_3''],
        body = [[Text ''4'', Text ''5'', Text ''6'']]\<rparr> =
     Inr \<lparr>labels = [Name ''column_1'', Name ''column_2'', Name ''column_3'', Name ''_hash''],
          body = [[Text ''4'', Text ''5'', Text ''6'', Text ''456'']]\<rparr> \<and>
   sql_parses (env_of counts_folder)
     (create_table_sql (generate_table_name ''in/x.csv'')
        [''column_1'', ''column_2'', ''column_3'', ''_hash'']) \<and>
   select_hash (generate_table_name ''in/x.csv'') (snd (snd counts_run)) =
     Inr [Some ''123'', Some ''456''] \<and>
   persist (env_of counts_folder) False ''in/x.csv'' ''changed''
       \<lparr>labels = [Name ''column_1'', Name ''column_2'', Name ''column_3''],
        body = [[Text ''4'', Text ''5'', Text ''6'']]\<rparr> (snd (snd counts_run)) =
     (record_import ''in/x.csv'' ''changed'' (snd (snd counts_run)), Inr (NoNewData ''in/x.csv''))"
proof -
  let ?E = "env_of counts_folder"
  let ?S = "snd (snd counts_run)"
  let ?log = "[Imported 2 ''csv_table_x'', Imported 2 ''csv_table_y'', TryingFallback ''in/z.csv'',
       FallbackImported 1 ''csv_table_z'']"
  let ?df = "\<lparr>labels = [Name ''column_1'', Name ''column_2'', Name ''column_3''],
        body = [[Text ''4'', Text ''5'', Text ''6'']]\<rparr>"
  let ?dfh = "\<lparr>labels = [Name ''column_1'', Name ''column_2'', Name ''column_3'', Name ''_hash''],
          body = [[Text ''4'', Text ''5'', Text ''6'', Text ''456'']]\<rparr>"
  let ?t = "\<lparr>tcols = [''column_1'', ''column_2'', ''column_3'', ''_hash''],
             trows = [[Some ''1'', Some ''2'', Some ''3'', Some ''123''],
                      [Some ''4'', Some ''5'', Some ''6'', Some ''456'']]\<rparr>"
  have h1: "import_csvs_to_db ?E [''in/x.csv'', ''in/y.csv'', ''in/z.csv''] empty_state =
      (None, ?log, ?S)"
    by code_simp
  have h2: "\<not> list_ex is_failed ?log"
    by simp
  have h3: "get_file_hash ?E ''in/x.csv'' = Some (''1,2,3'' @ [CHR 0x0A] @ ''4,5,6'' @ [CHR 0x0A])"
    by code_simp
  have h4: "already_imported ?S ''in/x.csv'' (''1,2,3'' @ [CHR 0x0A] @ ''4,5,6'' @ [CHR 0x0A])"
    by code_simp
  have h5: "map_of (tables ?S) (generate_table_name ''in/x.csv'') = Some ?t"
    by code_simp
  have h6: "select_hash (generate_table_name ''in/x.csv'') ?S = Inr [Some ''123'', Some ''456'']"
    by code_simp
  have h7: "list_all (\<lambda>row. to_cell (hash_cell ?dfh row) \<in> set [Some ''123'', Some ''456''])
      (body ?dfh)"
    by code_simp
  have h8: "with_hash ?E ?df = Inr ?dfh"
    by code_simp
  have h9: "sql_parses ?E (create_table_sql (generate_table_name ''in/x.csv'')
      [''column_1'', ''column_2'', ''column_3'', ''_hash''])"
    by code_simp
  have h10: "sql_parses ?E (create_table_sql (generate_table_name ''in/x.csv'')
      (map str_label (labels ?dfh)))"
    by code_simp
  note T = second_import_skips_every_file [OF h1 h2, where f = "''in/x.csv''" and s = ?S
      and t = ?t and hashes = "[Some ''123'', Some ''456'']" and df = ?df and dfh = ?dfh
      and fb = False
      and ccc = "[]"]
  from T have c1: "import_csvs_to_db ?E [''in/x.csv'', ''in/y.csv'', ''in/z.csv'']
        (?S\<lparr>common_column_count := []\<rparr>) =
      (None, [Skipping ''in/x.csv'', Skipping ''in/y.csv'', Skipping ''in/z.csv''],
       ?S\<lparr>common_column_count := []\<rparr>)"
    by simp
  from T [where filehash = "''1,2,3'' @ [CHR 0x0A] @ ''4,5,6'' @ [CHR 0x0A]"] h3 h4
  have c2: "process_file ?E ''in/x.csv'' ?S = Inr ([Skipping ''in/x.csv''], ?S)"
    by blast
  from T [where filehash = "''changed''"] h5 h6 h7 h8 h10
  have "persist ?E False ''in/x.csv'' ''changed'' ?df ?S =
     (record_import ''in/x.csv'' ''changed'' ?S,
      Inr (if False then FallbackNoNewData ''in/x.csv'' else NoNewData ''in/x.csv''))"
    by blast
  then have c3: "persist ?E False ''in/x.csv'' ''changed'' ?df ?S =
     (record_import ''in/x.csv'' ''changed'' ?S, Inr (NoNewData ''in/x.csv''))"
    by (simp only: if_False)
  from h1 h2 c1 h3 h4 c2 h8 h9 h6 c3 show ?thesis by blast
qed

lemma templates_first_run_value:
  "templates_first_run =
     (None,
      [TryingFallback ''in/a b.csv'', FallbackImported 1 ''csv_table_a_b'',
       TryingFallback ''in/a_b.csv'', FailedImport ''in/a_b.csv'',
       Imported 2 ''csv_table_b''],
      \<lparr>common_column_count = [2],
       tables =
         [(''csv_table_a_b'',
           \<lparr>tcols = [''column_1'', ''column_2'', ''_hash''],
            trows = [[Some ''name'', Some ''city'', Some ''namecity'']]\<rparr>),
          (''csv_table_b'',
           \<lparr>tcols = [''column_1'', ''column_2'', ''_hash''],
            trows = [[Some ''1'', Some ''x'', Some ''1x''], [Some ''2'', Some ''y'', Some ''2y'']]\<rparr>)],
       imported_files =
         [(''in/a b.csv'', ''name,city'' @ [CHR 0x0A]),
          (''in/b.csv'', ''1,x'' @ [CHR 0x0A] @ ''2,y'' @ [CHR 0x0A])]\<rparr>)"
  by code_simp

lemma templates_second_run_value:
  "templates_second_run =
     (None,
      [Skipping ''in/a b.csv'', TryingFallback ''in/a_b.csv'',
       FallbackImported 1 ''csv_table_a_b'', Skipping ''in/b.csv''],
      \<lparr>common_column_count = [2],
       tables =
         [(''csv_table_a_b'',
           \<lparr>tcols = [''column_1'', ''column_2'', ''_hash''],
            trows = [[Some ''name'', Some ''city'', Some ''namecity''],
                     [Some ''id'', Some ''name'', Some ''idname'']]\<rparr>),
          (''csv_table_b'',
           \<lparr>tcols = [''column_1'', ''column_2'', ''_hash''],
            trows = [[Some ''1'', Some ''x'', Some ''1x''], [Some ''2'', Some ''y'', Some ''2y'']]\<rparr>)],
       imported_files =
         [(''in/a b.csv'', ''name,city'' @ [CHR 0x0A]),
          (''in/b.csv'', ''1,x'' @ [CHR 0x0A] @ ''2,y'' @ [CHR 0x0A]),
          (''in/a_b.csv'', ''id,name,city'' @ [CHR 0x0A])]\<rparr>)"
  unfolding templates_second_run_def templates_first_run_value
  by code_simp

lemma wide_first_run_value:
  "wide_first_run =
     (None,
      [TryingFallback ''in/w e.csv'', FallbackImported 1 ''csv_table_w_e'',
       Imported 2 ''csv_table_b'', TryingFallback ''in/w_e.csv'', FailedImport ''in/w_e.csv''],
      \<lparr>common_column_count = [6],
       tables =
         [(''csv_table_w_e'',
           \<lparr>tcols = [''column_1'', ''column_2'', ''column_3'', ''column_4'', ''column_5'', ''_hash''],
            trows = [[Some ''a'', Some ''b'', Some ''c'', Some ''d'', Some ''e'', Some ''abcde'']]\<rparr>),
          (''csv_table_b'',
           \<lparr>tcols = [''column_1'', ''column_2'', ''column_3'', ''column_4'', ''column_5'',
                     ''column_6'', ''_hash''],
            trows = [[Some ''1'', Some ''2'', Some ''3'', Some ''4'', Some ''5'', Some ''6'',
                      Some ''123456''],
                     [Some ''6'', Some ''5'', Some ''4'', Some ''3'', Some ''2'', Some ''1'',
                      Some ''654321'']]\<rparr>)],
       imported_files =
         [(''in/w e.csv'', ''a,b,c,d,e'' @ [CHR 0x0A]),
          (''in/b.csv'', ''1,2,3,4,5,6'' @ [CHR 0x0A] @ ''6,5,4,3,2,1'' @ [CHR 0x0A])]\<rparr>)"
  by code_simp

lemma wide_second_run_value:
  "wide_second_run =
     (None,
      [Skipping ''in/w e.csv'', Skipping ''in/b.csv'', TryingFallback ''in/w_e.csv'',
       FallbackImported 1 ''csv_table_w_e''],
      \<lparr>common_column_count = [],
       tables =
         [(''csv_table_w_e'',
           \<lparr>tcols = [''column_1'', ''column_2'', ''column_3'', ''column_4'', ''column_5'', ''_hash''],
            trows = [[Some ''a'', Some ''b'', Some ''c'', Some ''d'', Some ''e'', Some ''abcde''],
                     [Some ''p'', Some ''q'', Some ''r'', Some ''s'', Some ''t'', Some ''pqrst'']]\<rparr>),
          (''csv_table_b'',
           \<lparr>tcols = [''column_1'', ''column_2'', ''column_3'', ''column_4'', ''column_5'',
                     ''column_6'', ''_hash''],
            trows = [[Some ''1'', Some ''2'', Some ''3'', Some ''4'', Some ''5'', Some ''6'',
                      Some ''123456''],
                     [Some ''6'', Some ''5'', Some ''4'', Some ''3'', Some ''2'', Some ''1'',
                      Some ''654321'']]\<rparr>)],
       imported_files =
         [(''in/w e.csv'', ''a,b,c,d,e'' @ [CHR 0x0A]),
          (''in/b.csv'', ''1,2,3,4,5,6'' @ [CHR 0x0A] @ ''6,5,4,3,2,1'' @ [CHR 0x0A]),
          (''in/w_e.csv'', ''p,q,r,s,t,u'' @ [CHR 0x0A])]\<rparr>)"
  unfolding wide_second_run_def wide_first_run_value
  by code_simp

text \<open>
  C2 as stated fails when a file failed in the first import. In \<open>templates_folder\<close>
  both imports are started from the menu of one process, on an empty store. In the first
  one the second file fails: its fallback keeps 5 columns, the default, and the table it
  shares with the first file has two. The third file then records the column count 2. In
  the second import the first and third file are skipped and the second is processed
  again: its fallback now keeps 2 columns, and a row is inserted. In \<open>wide_folder\<close>
  the second import runs in a new process. In the first import the third file fails: its
  fallback keeps 6 columns, the count of the second file, and the table it shares with
  the first file has five. In the second import the list of counts is empty when the
  third file is processed again: its fallback keeps 5 columns, and a row is inserted.
\<close>

theorem second_import_inserts_row_counterexample:
  "fst templates_first_run = None \<and>
   fst (snd templates_first_run) =
     [TryingFallback ''in/a b.csv'', FallbackImported 1 ''csv_table_a_b'',
      TryingFallback ''in/a_b.csv'', FailedImport ''in/a_b.csv'',
      Imported 2 ''csv_table_b''] \<and>
   map_option trows (map_of (tables (snd (snd templates_first_run))) ''csv_table_a_b'') =
     Some [[Some ''name'', Some ''city'', Some ''namecity'']] \<and>
   fst templates_second_run = None \<and>
   fst (snd templates_second_run) =
     [Skipping ''in/a b.csv'', TryingFallback ''in/a_b.csv'',
      FallbackImported 1 ''csv_table_a_b'', Skipping ''in/b.csv''] \<and>
   map_option trows (map_of (tables (snd (snd templates_second_run))) ''csv_table_a_b'') =
     Some [[Some ''name'', Some ''city'', Some ''namecity''],
           [Some ''id'', Some ''name'', Some ''idname'']] \<and>
   fst wide_first_run = None \<and>
   fst (snd wide_first_run) =
     [TryingFallback ''in/w e.csv'', FallbackImported 1 ''csv_table_w_e'',
      Imported 2 ''csv_table_b'', TryingFallback ''in/w_e.csv'', FailedImport ''in/w_e.csv''] \<and>
   map_option trows (map_of (tables (snd (snd wide_first_run))) ''csv_table_w_e'') =
     Some [[Some ''a'', Some ''b'', Some ''c'', Some ''d'', Some ''e'', Some ''abcde'']] \<and>
   fst wide_second_run = None \<and>
   fst (snd wide_second_run) =
     [Skipping ''in/w e.csv'', Skipping ''in/b.csv'', TryingFallback ''in/w_e.csv'',
      FallbackImported 1 ''csv_table_w_e''] \<and>
   map_option trows (map_of (tables (snd (snd wide_second_run))) ''csv_table_w_e'') =
     Some [[Some ''a'', Some ''b'', Some ''c'', Some ''d'', Some ''e'', Some ''abcde''],
           [Some ''p'', Some ''q'', Some ''r'', Some ''s'', Some ''t'', Some ''pqrst'']]"
  by (simp add: templates_first_run_value templates_second_run_value wide_first_run_value
      wide_second_run_value)

section \<open>The operator \<open>LIKE\<close> and substrings\<close>

lemma like_match_percent: "like_match ''%'' s"
  by (induction s) auto

lemma like_match_prefix:
  "no_wildcards term \<Longrightarrow> like_match (term @ ''%'') s = ci_prefix term s"
proof (induction "term" arbitrary: s)
  case Nil
  then show ?case using like_match_percent by simp
next
  case (Cons p ps)
  then have "p \<noteq> CHR ''%''" "p \<noteq> CHR ''_''" "no_wildcards ps"
    by (simp_all add: no_wildcards_def)
  with Cons.IH show ?case
    by (cases s) simp_all
qed

lemma like_match_contains:
  "no_wildcards term \<Longrightarrow> like_match (''%'' @ term @ ''%'') s = ci_substring term s"
proof (induction s)
  case Nil
  then show ?case using like_match_prefix [of "term" "[]"] by simp
next
  case (Cons c cs)
  then show ?case using like_match_prefix [of "term" "c # cs"] by simp
qed

lemma until_nul_pattern:
  "CHR 0x00 \<notin> set term \<Longrightarrow> until_nul (''%'' @ term @ ''%'') = ''%'' @ term @ ''%''"
  unfolding until_nul_def takeWhile_eq_all_conv by auto

lemma default_like_contains:
  assumes "no_wildcards term" and "CHR 0x00 \<notin> set term"
    and "utf8_length (''%'' @ term @ ''%'') \<le> 50000"
  shows "default_like (''%'' @ term @ ''%'') v =
     (case v of
        None \<Rightarrow> NoMatch
      | Some s \<Rightarrow> if ci_substring term (until_nul s) then Matches else NoMatch)"
proof -
  have "\<not> 50000 < utf8_length (''%'' @ term @ ''%'')"
    using assms(3) by simp
  then show ?thesis
    unfolding default_like_def until_nul_pattern [OF assms(2)]
    by (simp only: if_False like_match_contains [OF assms(1)])
qed

section \<open>The rows a search returns\<close>

lemma map_of_rev_distinct: "distinct (map fst xs) \<Longrightarrow> map_of (rev xs) = map_of xs"
proof (induction xs)
  case Nil
  then show ?case by simp
next
  case (Cons x xs)
  then have "map_of xs (fst x) = None"
    by (simp add: map_of_eq_None_iff)
  with Cons show ?case
    by (cases x) (auto simp: map_add_def fun_eq_iff split: option.split)
qed

lemma lookup_filter_zip:
  assumes "length row = length cs" and "distinct cs"
  shows "map (\<lambda>c. g (map_of (zip cs row) c)) (filter P cs) =
         map (\<lambda>(c, v). g (Some v)) (filter (\<lambda>(c, v). P c) (zip cs row))"
  using assms
proof (induction row cs rule: list_induct2)
  case Nil
  then show ?case by simp
next
  case (Cons v row c cs)
  have "map (\<lambda>x. g (map_of (zip (c # cs) (v # row)) x)) (filter P cs) =
        map (\<lambda>x. g (map_of (zip cs row) x)) (filter P cs)"
    by (rule map_cong) (use Cons.prems in auto)
  with Cons show ?case by simp
qed

lemma display_row_cells:
  assumes "distinct all_columns" and "length row = length all_columns"
  shows "display_row all_columns (filter P all_columns) row =
         map (\<lambda>(c, v). py_str v) (filter (\<lambda>(c, v). P c) (zip all_columns row))"
proof -
  have "distinct (map fst (zip all_columns row))"
    using assms by simp
  then have "map_of (rev (zip all_columns row)) = map_of (zip all_columns row)"
    by (rule map_of_rev_distinct)
  then have "display_row all_columns (filter P all_columns) row =
      map (\<lambda>c. (case_option [] py_str) (map_of (zip all_columns row) c)) (filter P all_columns)"
    by (simp add: display_row_def)
  also have "\<dots> = map (\<lambda>(c, v). (case_option [] py_str) (Some v))
                     (filter (\<lambda>(c, v). P c) (zip all_columns row))"
    using assms(2,1) by (rule lookup_filter_zip)
  finally show ?thesis by simp
qed

lemma like_any_columns:
  assumes "\<forall>c \<in> set columns. sql_like e arg (column_value all_columns row c) \<noteq> Raises"
  shows "like_any e all_columns row arg (map Column columns) =
     Inr (list_ex (\<lambda>c. sql_like e arg (column_value all_columns row c) = Matches) columns)"
  using assms
proof (induction columns)
  case Nil
  then show ?case by simp
next
  case (Cons c cs)
  then show ?case
    by (cases "sql_like e arg (column_value all_columns row c)") simp_all
qed

lemma where_row_columns:
  assumes "\<forall>term \<in> set terms. \<forall>c \<in> set columns.
      sql_like e (''%'' @ term @ ''%'') (column_value all_columns row c) \<noteq> Raises"
  shows "where_row e all_columns row (map Column columns) terms =
     Inr (list_all
            (\<lambda>term. list_ex
               (\<lambda>c. sql_like e (''%'' @ term @ ''%'') (column_value all_columns row c) = Matches)
               columns)
            terms)"
  using assms
proof (induction terms)
  case Nil
  then show ?case by simp
next
  case (Cons w ws)
  then show ?case
    by (simp add: like_any_columns)
qed

lemma select_rows_columns:
  assumes "\<forall>row \<in> set rows. \<forall>term \<in> set terms. \<forall>c \<in> set columns.
      sql_like e (''%'' @ term @ ''%'') (column_value all_columns row c) \<noteq> Raises"
  shows "select_rows e all_columns (map Column columns) terms rows =
     Inr (filter
            (\<lambda>row. list_all
               (\<lambda>term. list_ex
                  (\<lambda>c. sql_like e (''%'' @ term @ ''%'') (column_value all_columns row c) = Matches)
                  columns)
               terms)
            rows)"
  using assms
proof (induction rows)
  case Nil
  then show ?case by simp
next
  case (Cons row rows)
  then show ?case
    by (simp add: where_row_columns)
qed

lemma execute_search_rows:
  assumes "terms \<noteq> []" and "columns \<noteq> []"
    and "sql_parses e (search_sql name columns terms)"
    and "list_all (\<lambda>c. sql_operand e (tcols t) c = Some (Column c)) columns"
    and "list_all
           (\<lambda>row. list_all
              (\<lambda>term. list_all
                 (\<lambda>c. sql_like e (''%'' @ term @ ''%'') (column_value (tcols t) row c) \<noteq> Raises)
                 columns)
              terms)
           (trows t)"
  shows "execute_search e name t columns terms =
     Inr (filter
            (\<lambda>row. list_all
               (\<lambda>term. list_ex
                  (\<lambda>c. sql_like e (''%'' @ term @ ''%'') (column_value (tcols t) row c) = Matches)
                  columns)
               terms)
            (trows t))"
proof -
  have "map (sql_operand e (tcols t)) columns = map Some (map Column columns)"
    using assms(4) by (simp add: list_all_iff)
  then have ops: "all_some (map (sql_operand e (tcols t)) columns) = Some (map Column columns)"
    by (simp only: all_some_eq_Some)
  have "\<forall>row \<in> set (trows t). \<forall>term \<in> set terms. \<forall>c \<in> set columns.
      sql_like e (''%'' @ term @ ''%'') (column_value (tcols t) row c) \<noteq> Raises"
    using assms(5) by (simp add: list_all_iff)
  then have "select_rows e (tcols t) (map Column columns) terms (trows t) =
     Inr (filter
            (\<lambda>row. list_all
               (\<lambda>term. list_ex
                  (\<lambda>c. sql_like e (''%'' @ term @ ''%'') (column_value (tcols t) row c) = Matches)
                  columns)
               terms)
            (trows t))"
    by (rule select_rows_columns)
  with ops assms(1,2,3) show ?thesis
    by (simp add: execute_search_def)
qed

lemma search_db_lines:
  "search_db e st keyword =
     (let lines = concat (map (\<lambda>(n, u). search_table e n u keyword)
                     (filter (\<lambda>(n, u). startswith n TABLE_PREFIX) (tables st)))
      in if list_ex is_matches lines then lines else lines @ [NoMatchesFound])"
  by (auto simp: search_db_def Let_def list_ex_iff)

text \<open>
  C4, as the code has it. The keyword is split at white space into terms. In every table
  whose name starts with \<open>csv_table_\<close>, a row is returned iff for each term at least one
  column other than \<open>_hash\<close> holds a value that matches \<open>%term%\<close> under the operator
  \<open>LIKE\<close> of the engine (AND across the terms, OR across the columns). This holds when
  the keyword has a term, the table has such a column, the engine parses the text of the
  query and reads each column name as that column, and no \<open>LIKE\<close> raises on the rows of
  the table. The rows printed are the values of the columns other than \<open>_hash\<close>. The
  lines of the tables follow each other in the order of the tables. Under the operator
  with its default settings, a term without \<open>%\<close>, \<open>_\<close> and U+0000 whose pattern has
  at most 50000 bytes matches a value iff the value, up to its first U+0000, contains the
  term as a substring, compared without regard to the case of ASCII letters; \<open>NULL\<close>
  matches no term.
\<close>

theorem search_returns_like_matches:
  assumes "columns = filter (\<lambda>c. c \<noteq> ''_hash'') (tcols t)"
    and "columns \<noteq> []"
    and "py_split keyword \<noteq> []"
    and "sql_parses e (search_sql name columns (py_split keyword))"
    and "list_all (\<lambda>c. sql_operand e (tcols t) c = Some (Column c)) columns"
    and "list_all
           (\<lambda>row. list_all
              (\<lambda>term. list_all
                 (\<lambda>c. sql_like e (''%'' @ term @ ''%'') (column_value (tcols t) row c) \<noteq> Raises)
                 columns)
              (py_split keyword))
           (trows t)"
    and "rows = filter
            (\<lambda>row. list_all
               (\<lambda>term. list_ex
                  (\<lambda>c. sql_like e (''%'' @ term @ ''%'') (column_value (tcols t) row c) = Matches)
                  columns)
               (py_split keyword))
            (trows t)"
  shows "search_table e name t keyword =
      (if rows = [] then []
       else MatchesIn name # Line (join '' | '' columns) #
            map (\<lambda>row. Line (join '' | '' (display_row (tcols t) columns row))) rows)
    \<and> (distinct (tcols t) \<and> length row = length (tcols t) \<longrightarrow>
         display_row (tcols t) columns row =
           map (\<lambda>(c, v). py_str v) (filter (\<lambda>(c, v). c \<noteq> ''_hash'') (zip (tcols t) row)))
    \<and> search_db e st keyword =
         (let lines = concat (map (\<lambda>(n, u). search_table e n u keyword)
                         (filter (\<lambda>(n, u). startswith n TABLE_PREFIX) (tables st)))
          in if list_ex is_matches lines then lines else lines @ [NoMatchesFound])
    \<and> (no_wildcards w \<and> CHR 0x00 \<notin> set w \<and> utf8_length (''%'' @ w @ ''%'') \<le> 50000 \<longrightarrow>
         default_like (''%'' @ w @ ''%'') v =
           (case v of
              None \<Rightarrow> NoMatch
            | Some s \<Rightarrow> if ci_substring w (until_nul s) then Matches else NoMatch))"
proof (intro conjI impI)
  have ne: "tcols t \<noteq> []"
    using assms(1,2) by auto
  have "execute_search e name t columns (py_split keyword) = Inr rows"
    unfolding assms(7) using assms(3,2,4,5,6) by (rule execute_search_rows)
  then show "search_table e name t keyword =
      (if rows = [] then []
       else MatchesIn name # Line (join '' | '' columns) #
            map (\<lambda>row. Line (join '' | '' (display_row (tcols t) columns row))) rows)"
    using ne assms(1) by (simp add: search_table_def Let_def)
next
  assume "distinct (tcols t) \<and> length row = length (tcols t)"
  then show "display_row (tcols t) columns row =
           map (\<lambda>(c, v). py_str v) (filter (\<lambda>(c, v). c \<noteq> ''_hash'') (zip (tcols t) row))"
    unfolding assms(1) by (simp add: display_row_cells)
next
  show "search_db e st keyword =
         (let lines = concat (map (\<lambda>(n, u). search_table e n u keyword)
                         (filter (\<lambda>(n, u). startswith n TABLE_PREFIX) (tables st)))
          in if list_ex is_matches lines then lines else lines @ [NoMatchesFound])"
    by (rule search_db_lines)
next
  assume "no_wildcards w \<and> CHR 0x00 \<notin> set w \<and> utf8_length (''%'' @ w @ ''%'') \<le> 50000"
  then show "default_like (''%'' @ w @ ''%'') v =
           (case v of
              None \<Rightarrow> NoMatch
            | Some s \<Rightarrow> if ci_substring w (until_nul s) then Matches else NoMatch)"
    using default_like_contains [of w v] by blast
qed

theorem search_returns_like_matches_witness:
  "[''name'', ''age''] = filter (\<lambda>c. c \<noteq> ''_hash'') [''name'', ''age'', ''_hash''] \<and>
   py_split ''john doe'' = [''john'', ''doe''] \<and>
   sql_parses (env_of []) (search_sql ''csv_table_crm'' [''name'', ''age''] [''john'', ''doe'']) \<and>
   list_all (\<lambda>c. sql_operand (env_of []) [''name'', ''age'', ''_hash''] c = Some (Column c))
     [''name'', ''age''] \<and>
   list_all
     (\<lambda>row. list_all
        (\<lambda>term. list_all
           (\<lambda>c. sql_like (env_of []) (''%'' @ term @ ''%'')
                  (column_value [''name'', ''age'', ''_hash''] row c) \<noteq> Raises)
           [''name'', ''age''])
        [''john'', ''doe''])
     [[Some ''John Doe'', Some ''30'', Some ''John Doe30''],
      [Some ''John Roe'', None, Some ''John Roenan'']] \<and>
   search_table (env_of []) ''csv_table_crm''
       \<lparr>tcols = [''name'', ''age'', ''_hash''],
        trows = [[Some ''John Doe'', Some ''30'', Some ''John Doe30''],
                 [Some ''John Roe'', None, Some ''John Roenan'']]\<rparr> ''john doe'' =
     [MatchesIn ''csv_table_crm'', Line ''name | age'', Line ''John Doe | 30''] \<and>
   distinct [''name'', ''age'', ''_hash''] \<and>
   display_row [''name'', ''age'', ''_hash''] [''name'', ''age'']
       [Some ''John Doe'', Some ''30'', Some ''John Doe30''] = [''John Doe'', ''30''] \<and>
   no_wildcards ''john'' \<and> CHR 0x00 \<notin> set ''john'' \<and>
   utf8_length (''%'' @ ''john'' @ ''%'') \<le> 50000 \<and>
   ci_substring ''john'' (until_nul ''John Doe'') \<and>
   default_like (''%'' @ ''john'' @ ''%'') (Some ''John Doe'') = Matches"
proof -
  let ?t = "\<lparr>tcols = [''name'', ''age'', ''_hash''],
        trows = [[Some ''John Doe'', Some ''30'', Some ''John Doe30''],
                 [Some ''John Roe'', None, Some ''John Roenan'']]\<rparr>"
  let ?row = "[Some ''John Doe'', Some ''30'', Some ''John Doe30'']"
  have h1: "[''name'', ''age''] = filter (\<lambda>c. c \<noteq> ''_hash'') (tcols ?t)"
    by simp
  have h2: "[''name'', ''age''] \<noteq> []"
    by simp
  have s: "py_split ''john doe'' = [''john'', ''doe'']"
    by code_simp
  then have h3: "py_split ''john doe'' \<noteq> []"
    by simp
  have p: "sql_parses (env_of []) (search_sql ''csv_table_crm'' [''name'', ''age''] [''john'', ''doe''])"
    by code_simp
  then have h4: "sql_parses (env_of [])
      (search_sql ''csv_table_crm'' [''name'', ''age''] (py_split ''john doe''))"
    by (simp only: s)
  have h5: "list_all (\<lambda>c. sql_operand (env_of []) (tcols ?t) c = Some (Column c)) [''name'', ''age'']"
    by code_simp
  have r: "list_all
     (\<lambda>row. list_all
        (\<lambda>term. list_all
           (\<lambda>c. sql_like (env_of []) (''%'' @ term @ ''%'') (column_value (tcols ?t) row c) \<noteq> Raises)
           [''name'', ''age''])
        [''john'', ''doe''])
     (trows ?t)"
    by code_simp
  then have h6: "list_all
     (\<lambda>row. list_all
        (\<lambda>term. list_all
           (\<lambda>c. sql_like (env_of []) (''%'' @ term @ ''%'') (column_value (tcols ?t) row c) \<noteq> Raises)
           [''name'', ''age''])
        (py_split ''john doe''))
     (trows ?t)"
    by (simp only: s)
  have "[?row] = filter
            (\<lambda>row. list_all
               (\<lambda>term. list_ex
                  (\<lambda>c. sql_like (env_of []) (''%'' @ term @ ''%'')
                         (column_value (tcols ?t) row c) = Matches)
                  [''name'', ''age''])
               [''john'', ''doe''])
            (trows ?t)"
    by code_simp
  then have h7: "[?row] = filter
            (\<lambda>row. list_all
               (\<lambda>term. list_ex
                  (\<lambda>c. sql_like (env_of []) (''%'' @ term @ ''%'')
                         (column_value (tcols ?t) row c) = Matches)
                  [''name'', ''age''])
               (py_split ''john doe''))
            (trows ?t)"
    by (simp only: s)
  have d: "distinct (tcols ?t) \<and> length ?row = length (tcols ?t)"
    by simp
  have w1: "no_wildcards ''john''"
    by (simp add: no_wildcards_def)
  have w2: "CHR 0x00 \<notin> set ''john''"
    by simp
  have w3: "utf8_length (''%'' @ ''john'' @ ''%'') \<le> 50000"
    by (simp add: utf8_length_def is_ascii_def)
  have w4: "ci_substring ''john'' (until_nul ''John Doe'')"
    by code_simp
  have v2: "map (\<lambda>(c, v). py_str v) (filter (\<lambda>(c, v). c \<noteq> ''_hash'') (zip (tcols ?t) ?row)) =
      [''John Doe'', ''30'']"
    by simp
  note T = search_returns_like_matches [OF h1 h2 h3 h4 h5 h6 h7, where row = ?row
      and w = "''john''" and v = "Some ''John Doe''"]
  from T d v2 have c2: "display_row (tcols ?t) [''name'', ''age''] ?row = [''John Doe'', ''30'']"
    by simp
  from T have "search_table (env_of []) ''csv_table_crm'' ?t ''john doe'' =
      MatchesIn ''csv_table_crm'' # Line (join '' | '' [''name'', ''age'']) #
        map (\<lambda>row. Line (join '' | '' (display_row (tcols ?t) [''name'', ''age''] row))) [?row]"
    by simp
  with c2 have c1: "search_table (env_of []) ''csv_table_crm'' ?t ''john doe'' =
     [MatchesIn ''csv_table_crm'', Line ''name | age'', Line ''John Doe | 30'']"
    by simp
  from T w1 w2 w3 have "default_like (''%'' @ ''john'' @ ''%'') (Some ''John Doe'') =
      (case Some ''John Doe'' of
         None \<Rightarrow> NoMatch
       | Some s \<Rightarrow> if ci_substring ''john'' (until_nul s) then Matches else NoMatch)"
    by blast
  with w4 have c3: "default_like (''%'' @ ''john'' @ ''%'') (Some ''John Doe'') = Matches"
    by simp
  have r': "list_all
     (\<lambda>row. list_all
        (\<lambda>term. list_all
           (\<lambda>c. sql_like (env_of []) (''%'' @ term @ ''%'')
                  (column_value [''name'', ''age'', ''_hash''] row c) \<noteq> Raises)
           [''name'', ''age''])
        [''john'', ''doe''])
     [[Some ''John Doe'', Some ''30'', Some ''John Doe30''],
      [Some ''John Roe'', None, Some ''John Roenan'']]"
    using r by simp
  have h1': "[''name'', ''age''] = filter (\<lambda>c. c \<noteq> ''_hash'') [''name'', ''age'', ''_hash'']"
    by simp
  have h5': "list_all (\<lambda>c. sql_operand (env_of []) [''name'', ''age'', ''_hash''] c = Some (Column c))
     [''name'', ''age'']"
    using h5 by simp
  have d': "distinct [''name'', ''age'', ''_hash'']"
    by simp
  have c2': "display_row [''name'', ''age'', ''_hash''] [''name'', ''age'']
       [Some ''John Doe'', Some ''30'', Some ''John Doe30''] = [''John Doe'', ''30'']"
    using c2 by simp
  from h1' s p h5' r' c1 d' c2' w1 w2 w3 w4 c3 show ?thesis
    by blast
qed

text \<open>
  C4 as stated fails for a term that differs from the stored text in the case of a
  letter: after the import of a file with the row \<open>John Doe,30\<close>, the search for
  \<open>john\<close> returns that row, although no column contains \<open>john\<close> as a case-sensitive
  substring.
\<close>

theorem search_ignores_case_counterexample:
  "tables crm_state =
     [(''csv_table_crm'',
       \<lparr>tcols = [''name'', ''age'', ''_hash''],
        trows = [[Some ''John Doe'', Some ''30'', Some ''John Doe30'']]\<rparr>)] \<and>
   search_db (env_of []) crm_state ''john'' =
     [MatchesIn ''csv_table_crm'', Line ''name | age'', Line ''John Doe | 30''] \<and>
   \<not> is_substring ''john'' ''John Doe'' \<and>
   \<not> is_substring ''john'' ''30''"
  by code_simp

section \<open>Column names in the text of the query\<close>

text \<open>
  C10, as the code has it. The column names stand in the text of the query as they are
  stored, without quotes. When the engine cannot read the text of one of the columns
  other than \<open>_hash\<close> as an operand, the statement raises: the error is caught and
  reported for that table, no row of the table is printed, and the search goes on with
  the remaining tables. Whether a name is read is the engine's business: a name that is
  no identifier can still be an expression of its own, such as a numeral, and then
  nothing is raised.
\<close>

theorem unreadable_column_fails_table:
  assumes "tcols t \<noteq> []"
    and "list_ex (\<lambda>c. sql_operand e (tcols t) c = None) (filter (\<lambda>c. c \<noteq> ''_hash'') (tcols t))"
  shows "search_table e name t keyword = [ErrorSearching name]
    \<and> (startswith name TABLE_PREFIX \<longrightarrow>
         search_db e (st\<lparr>tables := (name, t) # others\<rparr>) keyword =
           (let lines = ErrorSearching name #
                   concat (map (\<lambda>(n, u). search_table e n u keyword)
                      (filter (\<lambda>(n, u). startswith n TABLE_PREFIX) others))
            in if list_ex is_matches lines then lines else lines @ [NoMatchesFound]))
    \<and> search_sql name [c1, c2] [w] =
         ''SELECT * FROM '' @ [CHR 0x27] @ name @ [CHR 0x27] @
         '' WHERE ('' @ c1 @ '' LIKE ? OR '' @ c2 @ '' LIKE ?)''"
proof (intro conjI impI)
  have "None \<in> set (map (sql_operand e (tcols t)) (filter (\<lambda>c. c \<noteq> ''_hash'') (tcols t)))"
    using assms(2) by (auto simp: list_ex_iff image_iff intro: rev_bexI)
  then have "all_some (map (sql_operand e (tcols t)) (filter (\<lambda>c. c \<noteq> ''_hash'') (tcols t))) =
      None"
    by (simp only: all_some_eq_None)
  then have "execute_search e name t (filter (\<lambda>c. c \<noteq> ''_hash'') (tcols t)) (py_split keyword) =
      Inl OperationalError"
    by (simp add: execute_search_def)
  then show r: "search_table e name t keyword = [ErrorSearching name]"
    using assms(1) by (simp add: search_table_def Let_def)
  show "search_db e (st\<lparr>tables := (name, t) # others\<rparr>) keyword =
           (let lines = ErrorSearching name #
                   concat (map (\<lambda>(n, u). search_table e n u keyword)
                      (filter (\<lambda>(n, u). startswith n TABLE_PREFIX) others))
            in if list_ex is_matches lines then lines else lines @ [NoMatchesFound])"
    if "startswith name TABLE_PREFIX"
    using that r by (simp add: search_db_lines Let_def)
  show "search_sql name [c1, c2] [w] =
         ''SELECT * FROM '' @ [CHR 0x27] @ name @ [CHR 0x27] @
         '' WHERE ('' @ c1 @ '' LIKE ? OR '' @ c2 @ '' LIKE ?)''"
    by (simp add: search_sql_def)
qed

theorem unreadable_column_fails_table_witness:
  "list_ex (\<lambda>c. sql_operand (env_of []) [''first name'', ''age'', ''_hash''] c = None)
     (filter (\<lambda>c. c \<noteq> ''_hash'') [''first name'', ''age'', ''_hash'']) \<and>
   startswith ''csv_table_staff'' TABLE_PREFIX \<and>
   search_table (env_of []) ''csv_table_staff''
       \<lparr>tcols = [''first name'', ''age'', ''_hash''],
        trows = [[Some ''John'', Some ''30'', Some ''John30'']]\<rparr> ''John'' =
     [ErrorSearching ''csv_table_staff''] \<and>
   search_db (env_of []) staff_state ''John'' =
     [ErrorSearching ''csv_table_staff'', MatchesIn ''csv_table_crm'', Line ''name | age'',
      Line ''John Doe | 30''] \<and>
   search_sql ''csv_table_staff'' [''first name'', ''age''] [''John''] =
     ''SELECT * FROM '' @ [CHR 0x27] @ ''csv_table_staff'' @ [CHR 0x27] @
     '' WHERE (first name LIKE ? OR age LIKE ?)''"
proof -
  let ?t = "\<lparr>tcols = [''first name'', ''age'', ''_hash''],
        trows = [[Some ''John'', Some ''30'', Some ''John30'']]\<rparr>"
  let ?u = "\<lparr>tcols = [''name'', ''age'', ''_hash''],
        trows = [[Some ''John Doe'', Some ''30'', Some ''John Doe30'']]\<rparr>"
  have h1: "tcols ?t \<noteq> []"
    by simp
  have h2: "list_ex (\<lambda>c. sql_operand (env_of []) (tcols ?t) c = None)
      (filter (\<lambda>c. c \<noteq> ''_hash'') (tcols ?t))"
    by code_simp
  have h3: "startswith ''csv_table_staff'' TABLE_PREFIX"
    by code_simp
  have s: "staff_state = staff_state\<lparr>tables := (''csv_table_staff'', ?t) # [(''csv_table_crm'', ?u)]\<rparr>"
    by (simp add: staff_state_def)
  have v: "(let lines = ErrorSearching ''csv_table_staff'' #
                   concat (map (\<lambda>(n, u). search_table (env_of []) n u ''John'')
                      (filter (\<lambda>(n, u). startswith n TABLE_PREFIX) [(''csv_table_crm'', ?u)]))
            in if list_ex is_matches lines then lines else lines @ [NoMatchesFound]) =
     [ErrorSearching ''csv_table_staff'', MatchesIn ''csv_table_crm'', Line ''name | age'',
      Line ''John Doe | 30'']"
    by code_simp
  note T = unreadable_column_fails_table [OF h1 h2, where name = "''csv_table_staff''"
      and keyword = "''John''" and st = staff_state and others = "[(''csv_table_crm'', ?u)]"
      and ?c1.0 = "''first name''" and ?c2.0 = "''age''" and w = "''John''"]
  from T have c1: "search_table (env_of []) ''csv_table_staff'' ?t ''John'' =
      [ErrorSearching ''csv_table_staff'']"
    by blast
  from T h3 have "search_db (env_of [])
        (staff_state\<lparr>tables := (''csv_table_staff'', ?t) # [(''csv_table_crm'', ?u)]\<rparr>) ''John'' =
      (let lines = ErrorSearching ''csv_table_staff'' #
                   concat (map (\<lambda>(n, u). search_table (env_of []) n u ''John'')
                      (filter (\<lambda>(n, u). startswith n TABLE_PREFIX) [(''csv_table_crm'', ?u)]))
            in if list_ex is_matches lines then lines else lines @ [NoMatchesFound])"
    by blast
  with s v have c2: "search_db (env_of []) staff_state ''John'' =
     [ErrorSearching ''csv_table_staff'', MatchesIn ''csv_table_crm'', Line ''name | age'',
      Line ''John Doe | 30'']"
    by simp
  from T have c3: "search_sql ''csv_table_staff'' [''first name'', ''age''] [''John''] =
     ''SELECT * FROM '' @ [CHR 0x27] @ ''csv_table_staff'' @ [CHR 0x27] @
     '' WHERE (first name LIKE ? OR age LIKE ?)''"
    by simp
  from h2 h3 c1 c2 c3 show ?thesis by simp
qed

text \<open>
  C10 as stated fails for column names that are numerals. After the import of a file
  with the header line \<open>2020,2021\<close>, the table has these two column names, neither of
  them an identifier; the query text compares the numbers with the pattern, nothing is
  raised, and the search for \<open>20\<close> returns the row of the table.
\<close>

theorem numeral_column_names_search_counterexample:
  "tables years_state =
     [(''csv_table_years'',
       \<lparr>tcols = [''2020'', ''2021'', ''_hash''],
        trows = [[Some ''abc'', Some ''xyz'', Some ''abcxyz'']]\<rparr>)] \<and>
   \<not> is_identifier ''2020'' \<and> \<not> is_identifier ''2021'' \<and>
   search_sql ''csv_table_years'' [''2020'', ''2021''] [''20''] =
     ''SELECT * FROM '' @ [CHR 0x27] @ ''csv_table_years'' @ [CHR 0x27] @
     '' WHERE (2020 LIKE ? OR 2021 LIKE ?)'' \<and>
   search_db (env_of []) years_state ''20'' =
     [MatchesIn ''csv_table_years'', Line ''2020 | 2021'', Line ''abc | xyz'']"
  by code_simp

end
